theory Spec2Isabelle
  imports Complex_Main "HOL-Library.AList"
begin

section \<open>JavaScript values the code relies on\<close>

text \<open>
  A thrown value is an \<open>Error\<close> object (its \<open>name\<close> and \<open>message\<close>), a Symbol (its
  description), a value that has no string form at all (an object without \<open>toString\<close>,
  such as \<open>Object.create(null)\<close>), or some other value, kept as the text that
  \<open>String(value)\<close> gives. Values typed \<open>any\<close> in the source (tool arguments, tool
  results, session context entries) are JavaScript values; objects and arrays are kept as
  opaque text.

  The output channel of the coding agent is part of the model: \<open>appendLine\<close> can throw
  (section on the agent's data). The LLM service and the Claude Code wrapper write to
  output channel fields of their own; the lines they write are left out. Left out as well
  are the methods no property below reads: \<open>analyzeCodbase\<close> (file system),
  \<open>generateStreamingResponse\<close> (an asynchronous stream) and the agent's constructor.
\<close>

datatype js_error = JsError string string | NonError string | SymbolValue string | Unprintable

datatype js_value =
  JsNull | JsBool bool | JsNumber rat | JsNaN | JsString string | JsObject string

text \<open>\<open>new Error(msg)\<close>, and the \<open>TypeError\<close> a failed string conversion throws.\<close>

definition new_Error :: "string \<Rightarrow> js_error" where
  "new_Error msg = JsError ''Error'' msg"

definition type_error :: "string \<Rightarrow> js_error" where
  "type_error msg = JsError ''TypeError'' msg"

text \<open>\<open>String(error)\<close>: for an Error object, \<open>Error.prototype.toString\<close>; it throws for
  a value without a string form.\<close>

fun String_of :: "js_error \<Rightarrow> js_error + string" where
  "String_of (JsError n m) =
     Inr (if n = [] then m else if m = [] then n else n @ '': '' @ m)"
| "String_of (NonError s) = Inr s"
| "String_of (SymbolValue d) = Inr (''Symbol('' @ d @ '')'')"
| "String_of Unprintable = Inl (type_error ''Cannot convert object to primitive value'')"

text \<open>The template literal \<open>`${error}`\<close>: as \<open>String(error)\<close>, but it throws for a Symbol.\<close>

fun template_of :: "js_error \<Rightarrow> js_error + string" where
  "template_of (SymbolValue d) = Inl (type_error ''Cannot convert a Symbol value to a string'')"
| "template_of e = String_of e"

text \<open>\<open>error instanceof Error ? error.message : String(error)\<close>\<close>

fun error_message_of :: "js_error \<Rightarrow> js_error + string" where
  "error_message_of (JsError n m) = Inr m"
| "error_message_of e = String_of e"

text \<open>Truthiness of a value: \<open>null\<close>, \<open>false\<close>, \<open>0\<close>, \<open>NaN\<close> and the empty string are
  falsy, every object is truthy.\<close>

fun truthy_value :: "js_value \<Rightarrow> bool" where
  "truthy_value JsNull = False"
| "truthy_value (JsBool v) = v"
| "truthy_value (JsNumber n) = (n \<noteq> 0)"
| "truthy_value JsNaN = False"
| "truthy_value (JsString s) = (s \<noteq> [])"
| "truthy_value (JsObject s) = True"

text \<open>Truthiness of an optional string: \<open>undefined\<close> and the empty string are falsy.\<close>

fun truthy :: "string option \<Rightarrow> bool" where
  "truthy None = False"
| "truthy (Some s) = (s \<noteq> [])"

text \<open>Truthiness of an optional number: \<open>undefined\<close> and \<open>0\<close> are falsy.\<close>

fun truthy_num :: "'a::zero option \<Rightarrow> bool" where
  "truthy_num None = False"
| "truthy_num (Some n) = (n \<noteq> 0)"

text \<open>\<open>a || b\<close> on optional strings and on optional numbers.\<close>

definition or_str :: "string option \<Rightarrow> string option \<Rightarrow> string option" where
  "or_str a b = (if truthy a then a else b)"

definition or_num :: "'a::zero option \<Rightarrow> 'a option \<Rightarrow> 'a option" where
  "or_num a b = (if truthy_num a then a else b)"

text \<open>\<open>a || d\<close> with a default \<open>d\<close> that is always there.\<close>

definition str_or :: "string option \<Rightarrow> string \<Rightarrow> string" where
  "str_or a d = (case a of None \<Rightarrow> d | Some s \<Rightarrow> if s \<noteq> [] then s else d)"

definition num_or :: "'a::zero option \<Rightarrow> 'a \<Rightarrow> 'a" where
  "num_or a d = (case a of None \<Rightarrow> d | Some n \<Rightarrow> if n \<noteq> 0 then n else d)"

text \<open>A string put into a template literal or into \<open>process.env\<close>: \<open>undefined\<close> reads
  \<open>undefined\<close>.\<close>

fun to_string :: "string option \<Rightarrow> string" where
  "to_string None = ''undefined''"
| "to_string (Some s) = s"

text \<open>Decimal text of a number, as \<open>`${Date.now()}`\<close> prints an integer.\<close>

fun digits :: "nat \<Rightarrow> string" where
  "digits n =
     (if n < 10 then [''0123456789'' ! n]
      else digits (n div 10) @ [''0123456789'' ! (n mod 10)])"

definition string_of_int :: "int \<Rightarrow> string" where
  "string_of_int i = (if i < 0 then CHR ''-'' # digits (nat (- i)) else digits (nat i))"

text \<open>\<open>[...new Set(xs)]\<close>: the distinct elements, each at its first occurrence.\<close>

fun unique :: "'a list \<Rightarrow> 'a list \<Rightarrow> 'a list" where
  "unique seen [] = seen"
| "unique seen (x # xs) = (if x \<in> set seen then unique seen xs else unique (seen @ [x]) xs)"

definition spread_Set :: "'a list \<Rightarrow> 'a list" where
  "spread_Set xs = unique [] xs"


section \<open>LLM service (llm-service.ts)\<close>

text \<open>
  The interface declares \<open>model\<close> and \<open>apiKey\<close> as strings; \<open>validateConfig\<close> tests
  them with \<open>!\<close>, which also catches a value that is missing at run time, so a missing
  (\<open>undefined\<close>) value is kept apart from the empty string. The provider name is a string:
  the agent passes it \<open>as any\<close>, and \<open>getModel\<close> has a \<open>default\<close> branch for the rest.
\<close>

record LLMProvider =
  name :: string
  model :: "string option"
  apiKey :: "string option"

datatype role = RSystem | RUser | RAssistant

record ConversationMessage =
  role :: role
  content :: string
  timestamp :: "int option"

record CoreMessage =
  cm_role :: role
  cm_content :: string

record usage =
  promptTokens :: int
  completionTokens :: int

text \<open>A tool call as the provider SDK reports it (\<open>any\<close>): the fields the code reads.\<close>

record fn_call =
  fn_name :: "string option"
  fn_arguments :: "js_value option"

record tool_call =
  tc_toolName :: "string option"
  tc_function :: "fn_call option"
  tc_name :: "string option"
  tc_toolCallId :: "string option"
  tc_id :: "string option"
  tc_args :: "js_value option"

type_synonym tool_result = js_value

record step =
  st_toolCalls :: "tool_call list option"
  st_toolResults :: "tool_result list option"

record LLMResponse =
  r_content :: string
  r_usage :: "usage option"
  r_finishReason :: "string option"
  r_toolCalls :: "tool_call list"
  r_toolResults :: "tool_result list"
  r_steps :: "step list"

text \<open>\<open>tools?: any[] | { [name: string]: any }\<close>\<close>

datatype toolset = ToolArray "js_value list" | ToolObject "(string \<times> js_value) list"

record LLMServiceConfig =
  provider :: LLMProvider
  maxTokens :: "int option"
  temperature :: "rat option"
  tools :: "toolset option"
  systemPrompt :: "string option"

text \<open>\<open>Partial<LLMServiceConfig>\<close>: \<open>None\<close> is a key that is not there.\<close>

record PartialConfig =
  p_provider :: "LLMProvider option"
  p_maxTokens :: "int option"
  p_temperature :: "rat option"
  p_tools :: "toolset option"
  p_systemPrompt :: "string option"

text \<open>The model client a provider factory returns, and \<open>process.env\<close>.\<close>

datatype model_client =
    OpenAIModel "string option"
  | AnthropicModel "string option"
  | GoogleModel "string option"
  | OpenRouterModel "string option" "string option"

type_synonym env = "string \<rightharpoonup> string"

text \<open>The parameters handed to \<open>generateText\<close> and what it gives back. \<open>generateText\<close>
  itself is the provider SDK: it is a parameter of the model, a function from the request
  to a result or a thrown error.\<close>

record generateParams =
  gp_model :: model_client
  gp_messages :: "CoreMessage list"
  gp_maxTokens :: int
  gp_temperature :: rat
  gp_maxSteps :: int
  gp_tools :: "toolset option"

record sdk_result =
  sdk_text :: string
  sdk_usage :: "usage option"
  finishReason :: "string option"
  steps :: "step list option"

type_synonym sdk = "generateParams \<Rightarrow> js_error + sdk_result"

record gen_options =
  go_maxTokens :: "int option"
  go_temperature :: "rat option"
  go_tools :: "toolset option"
  go_maxSteps :: "int option"

subsection \<open>Construction and reconfiguration\<close>

definition validateConfig :: "LLMServiceConfig \<Rightarrow> js_error + unit" where
  "validateConfig cfg =
     (if \<not> truthy (apiKey (provider cfg)) then
        Inl (new_Error (''API key is required for '' @ name (provider cfg) @ '' provider''))
      else if \<not> truthy (model (provider cfg)) then
        Inl (new_Error (''Model is required for '' @ name (provider cfg) @ '' provider''))
      else Inr ())"

text \<open>The constructor stores the configuration and validates it; a throwing constructor
  yields no service.\<close>

definition LLMService_new :: "LLMServiceConfig \<Rightarrow> js_error + LLMServiceConfig" where
  "LLMService_new cfg = (case validateConfig cfg of Inl e \<Rightarrow> Inl e | Inr u \<Rightarrow> Inr cfg)"

text \<open>\<open>{ ...this.config, ...newConfig }\<close>: a key of \<open>newConfig\<close> replaces the old value
  whole (the provider is not merged field by field).\<close>

definition merge_config :: "LLMServiceConfig \<Rightarrow> PartialConfig \<Rightarrow> LLMServiceConfig" where
  "merge_config cfg p =
     \<lparr> provider = (case p_provider p of Some v \<Rightarrow> v | None \<Rightarrow> provider cfg),
       maxTokens = (case p_maxTokens p of Some v \<Rightarrow> Some v | None \<Rightarrow> maxTokens cfg),
       temperature = (case p_temperature p of Some v \<Rightarrow> Some v | None \<Rightarrow> temperature cfg),
       tools = (case p_tools p of Some v \<Rightarrow> Some v | None \<Rightarrow> tools cfg),
       systemPrompt = (case p_systemPrompt p of Some v \<Rightarrow> Some v | None \<Rightarrow> systemPrompt cfg) \<rparr>"

text \<open>\<open>updateConfig\<close> assigns the merged configuration first and validates after: the
  service keeps the merged configuration also when validation throws.\<close>

definition updateConfig :: "PartialConfig \<Rightarrow> LLMServiceConfig \<Rightarrow> (js_error + unit) \<times> LLMServiceConfig" where
  "updateConfig newConfig cfg =
     (let cfg' = merge_config cfg newConfig in (validateConfig cfg', cfg'))"

definition getConfig :: "LLMServiceConfig \<Rightarrow> LLMServiceConfig" where
  "getConfig cfg = cfg"

subsection \<open>Model selection\<close>

text \<open>
  The three environment-backed branches of \<open>getModel\<close> run the same four statements on
  their own slot: read the slot, overwrite it with the configured key, build the client,
  then write the old value back when it is truthy and delete the slot otherwise.
\<close>

definition restore_slot :: "string \<Rightarrow> string option \<Rightarrow> env \<Rightarrow> env" where
  "restore_slot slot original e =
     (if truthy original then e(slot \<mapsto> the original) else e(slot := None))"

definition getModel :: "LLMServiceConfig \<Rightarrow> env \<Rightarrow> (js_error + model_client) \<times> env" where
  "getModel cfg e =
     (let p = provider cfg in
      if name p = ''openai'' then
        (let originalOpenAIKey = e ''OPENAI_API_KEY'';
             e1 = e(''OPENAI_API_KEY'' \<mapsto> to_string (apiKey p));
             openaiModel = OpenAIModel (model p)
         in (Inr openaiModel, restore_slot ''OPENAI_API_KEY'' originalOpenAIKey e1))
      else if name p = ''anthropic'' then
        (let originalAnthropicKey = e ''ANTHROPIC_API_KEY'';
             e1 = e(''ANTHROPIC_API_KEY'' \<mapsto> to_string (apiKey p));
             anthropicModel = AnthropicModel (model p)
         in (Inr anthropicModel, restore_slot ''ANTHROPIC_API_KEY'' originalAnthropicKey e1))
      else if name p = ''google'' then
        (let originalGoogleKey = e ''GOOGLE_GENERATIVE_AI_API_KEY'';
             e1 = e(''GOOGLE_GENERATIVE_AI_API_KEY'' \<mapsto> to_string (apiKey p));
             googleModel = GoogleModel (model p)
         in (Inr googleModel, restore_slot ''GOOGLE_GENERATIVE_AI_API_KEY'' originalGoogleKey e1))
      else if name p = ''openrouter'' then
        (Inr (OpenRouterModel (apiKey p) (model p)), e)
      else (Inl (new_Error (''Unsupported provider: '' @ name p)), e))"

text \<open>The slot each provider uses.\<close>

definition credential_slot :: "string \<Rightarrow> string" where
  "credential_slot n =
     (if n = ''openai'' then ''OPENAI_API_KEY''
      else if n = ''anthropic'' then ''ANTHROPIC_API_KEY''
      else ''GOOGLE_GENERATIVE_AI_API_KEY'')"

subsection \<open>Single-shot generation\<close>

definition formatMessages :: "ConversationMessage list \<Rightarrow> CoreMessage list" where
  "formatMessages msgs = map (\<lambda>msg. \<lparr> cm_role = role msg, cm_content = content msg \<rparr>) msgs"

fun tools_nonempty :: "toolset option \<Rightarrow> bool" where
  "tools_nonempty None = False"
| "tools_nonempty (Some (ToolArray xs)) = (length xs > 0)"
| "tools_nonempty (Some (ToolObject kvs)) = (length kvs > 0)"

text \<open>\<open>options?.tools || this.config.tools\<close>: an array or an object is truthy also when
  empty.\<close>

definition or_tools :: "toolset option \<Rightarrow> toolset option \<Rightarrow> toolset option" where
  "or_tools a b = (case a of Some t \<Rightarrow> Some t | None \<Rightarrow> b)"

text \<open>Optional chaining \<open>options?.field\<close>.\<close>

definition opt :: "'o option \<Rightarrow> ('o \<Rightarrow> 'a option) \<Rightarrow> 'a option" where
  "opt options f = (case options of None \<Rightarrow> None | Some op \<Rightarrow> f op)"

definition build_params ::
  "LLMServiceConfig \<Rightarrow> model_client \<Rightarrow> ConversationMessage list \<Rightarrow> gen_options option \<Rightarrow> generateParams" where
  "build_params cfg m messages options =
     (let formatted = formatMessages messages;
          formattedMessages =
            (if truthy (systemPrompt cfg)
             then \<lparr> cm_role = RSystem, cm_content = the (systemPrompt cfg) \<rparr> # formatted
             else formatted);
          tls = or_tools (opt options go_tools) (tools cfg)
      in \<lparr> gp_model = m,
           gp_messages = formattedMessages,
           gp_maxTokens = num_or (or_num (opt options go_maxTokens) (maxTokens cfg)) 4000,
           gp_temperature = num_or (or_num (opt options go_temperature) (temperature cfg)) (7 / 10),
           gp_maxSteps = num_or (opt options go_maxSteps) 25,
           gp_tools = (if tools_nonempty tls then tls else None) \<rparr>)"

text \<open>The loop over \<open>result.steps\<close> that pushes every step's calls and results onto the
  two flat lists.\<close>

fun collect_steps ::
  "step list \<Rightarrow> tool_call list \<times> tool_result list \<Rightarrow> tool_call list \<times> tool_result list" where
  "collect_steps [] acc = acc"
| "collect_steps (s # ss) (toolCalls, toolResults) =
     (let toolCalls1 = (case st_toolCalls s of Some cs \<Rightarrow> toolCalls @ cs | None \<Rightarrow> toolCalls);
          toolResults1 = (case st_toolResults s of Some rs \<Rightarrow> toolResults @ rs | None \<Rightarrow> toolResults)
      in collect_steps ss (toolCalls1, toolResults1))"

text \<open>The \<open>catch\<close> block of \<open>generateResponse\<close> puts the error into a template literal
  and throws a new Error with that text; when the error has no such text, the conversion's
  \<open>TypeError\<close> is what leaves the block.\<close>

definition wrap_generate_error :: "js_error \<Rightarrow> js_error" where
  "wrap_generate_error e =
     (case template_of e of
        Inr s \<Rightarrow> new_Error (''Failed to generate response: '' @ s)
      | Inl conversion_error \<Rightarrow> conversion_error)"

definition generateResponse ::
  "sdk \<Rightarrow> LLMServiceConfig \<Rightarrow> ConversationMessage list \<Rightarrow> gen_options option \<Rightarrow> env
     \<Rightarrow> (js_error + LLMResponse) \<times> env" where
  "generateResponse generateText cfg messages options e =
     (case getModel cfg e of
        (Inl err, e') \<Rightarrow> (Inl (wrap_generate_error err), e')
      | (Inr m, e') \<Rightarrow>
          (case generateText (build_params cfg m messages options) of
             Inl err \<Rightarrow> (Inl (wrap_generate_error err), e')
           | Inr result \<Rightarrow>
               (let (toolCalls, toolResults) =
                      (case steps result of
                         Some ss \<Rightarrow> collect_steps ss ([], [])
                       | None \<Rightarrow> ([], []))
                in (Inr \<lparr> r_content = sdk_text result,
                          r_usage = sdk_usage result,
                          r_finishReason = finishReason result,
                          r_toolCalls = toolCalls,
                          r_toolResults = toolResults,
                          r_steps = (case steps result of Some ss \<Rightarrow> ss | None \<Rightarrow> []) \<rparr>, e'))))"

text \<open>The calls and the results a step carries (none when the field is absent).\<close>

definition step_calls :: "step \<Rightarrow> tool_call list" where
  "step_calls s = (case st_toolCalls s of Some cs \<Rightarrow> cs | None \<Rightarrow> [])"

definition step_results :: "step \<Rightarrow> tool_result list" where
  "step_results s = (case st_toolResults s of Some rs \<Rightarrow> rs | None \<Rightarrow> [])"


section \<open>Uniform messages and the message adapter\<close>

datatype sdk_type = TUser | TAssistant | TSystem | TResult

text \<open>The \<open>message\<close> field of a uniform message is \<open>any\<close>; the two structured payloads
  the agent hands to the adapter are kept as they are.\<close>

record tool_call_info =
  toolCallId :: "string option"
  toolName :: string
  args :: "js_value option"

datatype payload = ToolCallPayload tool_call_info | ToolResultPayload tool_result

record SDKMessage =
  m_type :: sdk_type
  subtype :: "string option"
  message :: "payload option"
  m_content :: "string option"
  session_id :: "string option"
  parent_tool_use_id :: "string option"
  duration_ms :: "int option"
  total_cost_usd :: "rat option"

text \<open>
  Modelled from the spec: \<open>utils/message-adapter.ts\<close> (the class \<open>MessageAdapter\<close>) is
  imported by \<open>agent.ts\<close> and is not among the source files. The spec describes it as pure,
  total conversion functions, each tagging its message with the session id:
  \<open>createUserMessage\<close>, \<open>createAssistantMessage\<close> with an optional duration annotation,
  \<open>createErrorMessage\<close>, which accepts an error object or a string and always produces a
  \<open>result\<close>-typed message with an error subtype, \<open>createToolCallMessage\<close>, which captures
  tool name, call id and arguments, \<open>createToolResultMessage\<close>, and
  \<open>calculateTotalCost\<close>, which sums the cost figures found on \<open>result\<close>-typed messages
  and is undefined when there is none. For the tool messages the spec fixes neither type nor
  subtype; they are assistant-typed and subtyped here, the shape the agent's search for the
  last assistant message without a subtype steps over.
\<close>

definition blank :: "sdk_type \<Rightarrow> string \<Rightarrow> SDKMessage" where
  "blank t sessionId =
     \<lparr> m_type = t, subtype = None, message = None, m_content = None,
       session_id = Some sessionId, parent_tool_use_id = None,
       duration_ms = None, total_cost_usd = None \<rparr>"

definition createUserMessage :: "string \<Rightarrow> string \<Rightarrow> SDKMessage" where
  "createUserMessage text sessionId = (blank TUser sessionId)\<lparr> m_content := Some text \<rparr>"

definition createAssistantMessage :: "string \<Rightarrow> string \<Rightarrow> int option \<Rightarrow> SDKMessage" where
  "createAssistantMessage text sessionId dur =
     (blank TAssistant sessionId)\<lparr> m_content := Some text, duration_ms := dur \<rparr>"

datatype error_arg = ErrorObject js_error | ErrorString string

fun error_arg_text :: "error_arg \<Rightarrow> string" where
  "error_arg_text (ErrorObject e) = (case error_message_of e of Inr s \<Rightarrow> s | Inl x \<Rightarrow> [])"
| "error_arg_text (ErrorString s) = s"

definition createErrorMessage :: "error_arg \<Rightarrow> string \<Rightarrow> SDKMessage" where
  "createErrorMessage err sessionId =
     (blank TResult sessionId)\<lparr> subtype := Some ''error'', m_content := Some (error_arg_text err) \<rparr>"

definition createToolCallMessage :: "tool_call_info \<Rightarrow> string \<Rightarrow> SDKMessage" where
  "createToolCallMessage info sessionId =
     (blank TAssistant sessionId)\<lparr> subtype := Some ''tool_call'', message := Some (ToolCallPayload info) \<rparr>"

definition createToolResultMessage :: "tool_result \<Rightarrow> string \<Rightarrow> SDKMessage" where
  "createToolResultMessage res sessionId =
     (blank TAssistant sessionId)\<lparr> subtype := Some ''tool_result'', message := Some (ToolResultPayload res) \<rparr>"

definition calculateTotalCost :: "SDKMessage list \<Rightarrow> rat option" where
  "calculateTotalCost msgs =
     (let costs = List.map_filter (\<lambda>m. if m_type m = TResult then total_cost_usd m else None) msgs
      in if costs = [] then None else Some (sum_list costs))"

text \<open>What the spec calls a uniform error message: \<open>result\<close>-typed with an error subtype.\<close>

definition is_error_message :: "SDKMessage \<Rightarrow> bool" where
  "is_error_message m = (m_type m = TResult \<and> subtype m = Some ''error'')"


section \<open>Agent data (agent.ts)\<close>

text \<open>The \<open>onMessage\<close> callback belongs to the caller and may keep state of its own.
  What the agent sees of a call is whether it returns or throws, and within one task every
  call comes with a longer list of messages built so far. So the callback is a function
  from that list, whose last element is the message handed over, to the error it throws, if
  any. The abort controller is only passed along.\<close>

type_synonym callback = "SDKMessage list \<Rightarrow> js_error option"

record AgentOptions =
  maxTurns :: "int option"
  o_temperature :: "rat option"
  o_maxTokens :: "int option"
  maxSteps :: "int option"
  o_systemPrompt :: "string option"
  abortController :: "bool option"
  onMessage :: "callback option"
  sessionId :: "string option"

text \<open>\<open>{ ...options }\<close> of an absent \<open>options\<close> has no key.\<close>

definition no_options :: AgentOptions where
  "no_options =
     \<lparr> maxTurns = None, o_temperature = None, o_maxTokens = None, maxSteps = None,
       o_systemPrompt = None, abortController = None, onMessage = None, sessionId = None \<rparr>"

definition spread :: "AgentOptions option \<Rightarrow> AgentOptions" where
  "spread options = (case options of None \<Rightarrow> no_options | Some op \<Rightarrow> op)"

record TaskResult =
  success :: bool
  messages :: "SDKMessage list"
  finalMessage :: "string option"
  toolsUsed :: "string list"
  duration :: int
  totalCost :: "rat option"
  error :: "string option"

record AgentResponse =
  ar_messages :: "SDKMessage list"
  isComplete :: bool
  suggestedActions :: "string list option"
  ar_context :: "(string \<times> js_value) list"

record ConversationTurn =
  turn_id :: string
  turn_timestamp :: int
  userMessage :: string
  agentResponse :: AgentResponse
  turn_toolResults :: "js_value list"

record AgentSession =
  session_ident :: string
  startTime :: int
  lastActivity :: int
  projectPath :: string
  turns :: "ConversationTurn list"
  s_context :: "(string \<times> js_value) list"

record ExecutionContext =
  ec_workingDirectory :: string
  ec_sessionId :: string

text \<open>
  Session objects are shared by reference: the agent's \<open>sessions\<close> map and every caller of
  \<open>getSession\<close> hold the same object. The objects live in a store, a list addressed by
  position; \<open>new\<close> appends and nothing is ever removed, as with a garbage-collected heap.
  A JavaScript \<open>Map\<close> is an association list in insertion order with distinct keys:
  \<open>get\<close> is \<open>map_of\<close>, \<open>set\<close> is \<open>AList.update\<close>, \<open>delete\<close> is \<open>AList.delete\<close>.

  The record below is the agent instance together with the parts of the process it
  touches. The tool registry is an external collaborator, given by the two results the
  agent asks it for.

  The agent's output channel (\<open>config.outputChannel\<close>) belongs to the host and may keep
  state. Every call of \<open>appendLine\<close> comes with a longer list of lines handed over so far,
  so the channel is a function from that list, whose last element is the line of the call,
  to the error the call throws, if any. \<open>JSON.stringify(toolCall, null, 2)\<close>, used for one
  debug line, is a built-in that is not rendered here: the world gives its text (on the
  plain data a provider reports it returns one).
\<close>

type_synonym ref = nat

record world =
  workingDirectory :: string
  registry_tools :: "ExecutionContext \<Rightarrow> (string \<times> js_value) list"
  registry_names :: "string list"
  llmService :: LLMServiceConfig
  sessions :: "(string \<times> ref) list"
  conversationHistory :: "(string \<times> ConversationMessage list) list"
  isInitializedFlag :: bool
  heap :: "AgentSession list"
  process_env :: env
  channel :: "string list \<Rightarrow> js_error option"
  channel_calls :: "string list"
  JSON_stringify :: "tool_call \<Rightarrow> string"

definition appendLine :: "string \<Rightarrow> world \<Rightarrow> js_error option \<times> world" where
  "appendLine line w =
     (let handed = channel_calls w @ [line]
      in (channel w handed, w\<lparr> channel_calls := handed \<rparr>))"

text \<open>An implementation of the abstract \<open>executeTaskWithStreaming\<close>.\<close>

type_synonym executor = "string \<Rightarrow> AgentOptions option \<Rightarrow> world \<Rightarrow> (js_error + TaskResult) \<times> world"

section \<open>BaseAgent\<close>

definition session_not_found :: "string \<Rightarrow> js_error" where
  "session_not_found conversationId = new_Error (''Session '' @ conversationId @ '' not found'')"

text \<open>The three clock readings of \<open>continueConversation\<close>: the new \<open>lastActivity\<close>, the
  \<open>Date.now()\<close> of the turn id and the turn's timestamp. A reference found in the map
  points to an object of the store (\<open>store_ok\<close> below), which \<open>heap w ! session\<close> reads
  and the list update writes.\<close>

record turn_clock =
  activity_now :: int
  turn_id_now :: int
  turn_now :: int

definition continueConversation ::
  "executor \<Rightarrow> turn_clock \<Rightarrow> string \<Rightarrow> string \<Rightarrow> AgentOptions option \<Rightarrow> world
     \<Rightarrow> (js_error + AgentResponse) \<times> world" where
  "continueConversation exec clk msg conversationId options w =
     (case map_of (sessions w) conversationId of
        None \<Rightarrow> (Inl (session_not_found conversationId), w)
      | Some session \<Rightarrow>
          (let w1 = w\<lparr> heap := (heap w)[session := (heap w ! session)\<lparr> lastActivity := activity_now clk \<rparr>] \<rparr>
           in case exec msg (Some ((spread options)\<lparr> sessionId := Some conversationId \<rparr>)) w1 of
                (Inl e, w2) \<Rightarrow> (Inl e, w2)
              | (Inr result, w2) \<Rightarrow>
                  (let response =
                         \<lparr> ar_messages = messages result,
                           isComplete = success result,
                           suggestedActions = Some (if success result then [] else [''retry'', ''clarify'']),
                           ar_context = s_context (heap w2 ! session) \<rparr>;
                       turn =
                         \<lparr> turn_id = ''turn-'' @ string_of_int (turn_id_now clk),
                           turn_timestamp = turn_now clk,
                           userMessage = msg,
                           agentResponse = response,
                           turn_toolResults = [] \<rparr>;
                       s = heap w2 ! session
                   in (Inr response, w2\<lparr> heap := (heap w2)[session := s\<lparr> turns := turns s @ [turn] \<rparr>] \<rparr>))))"

text \<open>\<open>getSession\<close> returns the reference held under the id, creating and storing a new
  session object when there is none. The two clock readings are those of \<open>startTime\<close> and
  \<open>lastActivity\<close>.\<close>

definition getSession :: "int \<times> int \<Rightarrow> string \<Rightarrow> string \<Rightarrow> world \<Rightarrow> ref \<times> world" where
  "getSession clk sessionIdent path w =
     (case map_of (sessions w) sessionIdent of
        Some session \<Rightarrow> (session, w)
      | None \<Rightarrow>
          (let session = length (heap w);
               obj = \<lparr> session_ident = sessionIdent, startTime = fst clk, lastActivity = snd clk,
                       projectPath = path, turns = [], s_context = [] \<rparr>
           in (session, w\<lparr> heap := heap w @ [obj],
                            sessions := AList.update sessionIdent session (sessions w) \<rparr>)))"

text \<open>The loop of \<open>cleanupSessions\<close> over the entries of the map.\<close>

fun sweep :: "int \<Rightarrow> int \<Rightarrow> AgentSession list \<Rightarrow> (string \<times> ref) list \<Rightarrow> (string \<times> ref) list
    \<Rightarrow> (string \<times> ref) list" where
  "sweep now maxAge h [] store = store"
| "sweep now maxAge h ((sessionIdent, session) # entries) store =
     sweep now maxAge h entries
       (if now - lastActivity (h ! session) > maxAge then AList.delete sessionIdent store else store)"

definition default_maxAge :: int where
  "default_maxAge = 24 * 60 * 60 * 1000"

definition cleanupSessions :: "int option \<Rightarrow> int \<Rightarrow> world \<Rightarrow> world" where
  "cleanupSessions maxAge now w =
     (let age = (case maxAge of None \<Rightarrow> default_maxAge | Some a \<Rightarrow> a)
      in w\<lparr> sessions := sweep now age (heap w) (sessions w) (sessions w) \<rparr>)"

definition getAvailableTools :: "world \<Rightarrow> string list" where
  "getAvailableTools w = registry_names w"

definition isReady :: "world \<Rightarrow> bool" where
  "isReady w = isInitializedFlag w"

definition getWorkingDirectory :: "world \<Rightarrow> string" where
  "getWorkingDirectory w = workingDirectory w"

definition setWorkingDirectory :: "string \<Rightarrow> world \<Rightarrow> world" where
  "setWorkingDirectory path w = w\<lparr> workingDirectory := path \<rparr>"


section \<open>SuperDesignCodingAgent\<close>

definition createToolSchemas :: "string \<Rightarrow> world \<Rightarrow> toolset" where
  "createToolSchemas sessionIdent w =
     ToolObject (registry_tools w \<lparr> ec_workingDirectory = workingDirectory w, ec_sessionId = sessionIdent \<rparr>)"

record generated =
  g_content :: string
  g_toolCalls :: "tool_call list"
  g_toolResults :: "tool_result list"
  g_steps :: "step list"

text \<open>\<open>generateWithTools\<close> calls the service on the history. Its \<open>catch\<close> block writes a
  line with the error in a template literal and rethrows the error; when the conversion or
  the channel throws, that exception leaves the block instead. The service's only effect
  on the world is on \<open>process.env\<close>.\<close>

definition generateWithTools ::
  "sdk \<Rightarrow> ConversationMessage list \<Rightarrow> int option \<Rightarrow> rat option \<Rightarrow> int option \<Rightarrow> string \<Rightarrow> world
     \<Rightarrow> (js_error + generated) \<times> world" where
  "generateWithTools generateText history maxTok temp maxStp sessionIdent w =
     (case generateResponse generateText (llmService w) history
             (Some \<lparr> go_maxTokens = maxTok, go_temperature = temp,
                     go_tools = Some (createToolSchemas sessionIdent w),
                     go_maxSteps = Some (num_or maxStp 25) \<rparr>)
             (process_env w) of
        (Inr response, e') \<Rightarrow>
          (Inr \<lparr> g_content = r_content response, g_toolCalls = r_toolCalls response,
                 g_toolResults = r_toolResults response, g_steps = r_steps response \<rparr>,
           w\<lparr> process_env := e' \<rparr>)
      | (Inl err, e') \<Rightarrow>
          (case template_of err of
             Inl conversion_error \<Rightarrow> (Inl conversion_error, w\<lparr> process_env := e' \<rparr>)
           | Inr shown \<Rightarrow>
               (case appendLine (''[SuperDesignAgent] Error generating response: '' @ shown)
                       (w\<lparr> process_env := e' \<rparr>) of
                  (Some channel_error, w1) \<Rightarrow> (Inl channel_error, w1)
                | (None, w1) \<Rightarrow> (Inl err, w1))))"

text \<open>The two local lists of \<open>executeTaskWithStreaming\<close> that the \<open>catch\<close> block reads.\<close>

record locals =
  l_messages :: "SDKMessage list"
  l_toolsUsed :: "string list"

definition notify :: "AgentOptions option \<Rightarrow> SDKMessage list \<Rightarrow> js_error option" where
  "notify options built = (case opt options onMessage of None \<Rightarrow> None | Some cb \<Rightarrow> cb built)"

definition resolve_toolName :: "tool_call \<Rightarrow> string" where
  "resolve_toolName toolCall =
     str_or (or_str (or_str (tc_toolName toolCall) (opt (tc_function toolCall) fn_name))
               (tc_name toolCall)) ''unknown''"

text \<open>\<open>toolCall.args || toolCall.function?.arguments\<close>: a value of \<open>args\<close> that is absent
  or falsy gives way to the function's arguments.\<close>

definition or_json :: "js_value option \<Rightarrow> js_value option \<Rightarrow> js_value option" where
  "or_json a b = (case a of Some v \<Rightarrow> if truthy_value v then Some v else b | None \<Rightarrow> b)"

definition tool_call_message :: "string \<Rightarrow> tool_call \<Rightarrow> SDKMessage" where
  "tool_call_message sessionIdent toolCall =
     createToolCallMessage
       \<lparr> toolCallId = or_str (tc_toolCallId toolCall) (tc_id toolCall),
         toolName = resolve_toolName toolCall,
         args = or_json (tc_args toolCall) (opt (tc_function toolCall) fn_arguments) \<rparr>
       sessionIdent"

text \<open>The inner loops. For a tool call the debug line is written first; then the tool name
  and the message are pushed, and the callback runs last, so a throwing callback leaves its
  message (and the tool name) in the lists, and a throwing channel leaves them as they
  were.\<close>

fun process_toolCalls ::
  "AgentOptions option \<Rightarrow> string \<Rightarrow> tool_call list \<Rightarrow> locals \<Rightarrow> world
     \<Rightarrow> js_error option \<times> locals \<times> world" where
  "process_toolCalls options sessionIdent [] l w = (None, l, w)"
| "process_toolCalls options sessionIdent (toolCall # rest) l w =
     (case appendLine (''[DEBUG] Tool call structure: '' @ JSON_stringify w toolCall) w of
        (Some channel_error, w1) \<Rightarrow> (Some channel_error, l, w1)
      | (None, w1) \<Rightarrow>
          (let toolCallMessage = tool_call_message sessionIdent toolCall;
               l1 = \<lparr> l_messages = l_messages l @ [toolCallMessage],
                      l_toolsUsed = l_toolsUsed l @ [resolve_toolName toolCall] \<rparr>
           in case notify options (l_messages l1) of
                Some err \<Rightarrow> (Some err, l1, w1)
              | None \<Rightarrow> process_toolCalls options sessionIdent rest l1 w1))"

fun process_toolResults ::
  "AgentOptions option \<Rightarrow> string \<Rightarrow> tool_result list \<Rightarrow> locals \<Rightarrow> js_error option \<times> locals" where
  "process_toolResults options sessionIdent [] l = (None, l)"
| "process_toolResults options sessionIdent (toolResult # rest) l =
     (let toolResultMessage = createToolResultMessage toolResult sessionIdent;
          l1 = l\<lparr> l_messages := l_messages l @ [toolResultMessage] \<rparr>
      in case notify options (l_messages l1) of
           Some err \<Rightarrow> (Some err, l1)
         | None \<Rightarrow> process_toolResults options sessionIdent rest l1)"

fun process_steps ::
  "AgentOptions option \<Rightarrow> string \<Rightarrow> step list \<Rightarrow> locals \<Rightarrow> world
     \<Rightarrow> js_error option \<times> locals \<times> world" where
  "process_steps options sessionIdent [] l w = (None, l, w)"
| "process_steps options sessionIdent (s # rest) l w =
     (case (case st_toolCalls s of
              Some cs \<Rightarrow> process_toolCalls options sessionIdent cs l w
            | None \<Rightarrow> (None, l, w)) of
        (Some err, l1, w1) \<Rightarrow> (Some err, l1, w1)
      | (None, l1, w1) \<Rightarrow>
          (case (case st_toolResults s of
                   Some rs \<Rightarrow> process_toolResults options sessionIdent rs l1
                 | None \<Rightarrow> (None, l1)) of
             (Some err, l2) \<Rightarrow> (Some err, l2, w1)
           | (None, l2) \<Rightarrow> process_steps options sessionIdent rest l2 w1))"

definition final_message :: "string \<Rightarrow> SDKMessage list \<Rightarrow> string" where
  "final_message llm_content msgs =
     (if llm_content \<noteq> [] then llm_content
      else (case find (\<lambda>m. m_type m = TAssistant \<and> \<not> truthy (subtype m)) (rev msgs) of
              None \<Rightarrow> ''Task completed''
            | Some lastAssistantMessage \<Rightarrow> str_or (m_content lastAssistantMessage) ''Task completed''))"

text \<open>The clock readings of one task, in the order the code takes them: \<open>startTime\<close>, the
  default session id, the user message's timestamp, the assistant message's timestamp and
  its elapsed time, and the final \<open>Date.now()\<close> of either exit.\<close>

record task_clock =
  start_now :: int
  session_now :: int
  user_now :: int
  assistant_stamp :: int
  assistant_now :: int
  end_now :: int

definition completed_line :: "int \<Rightarrow> nat \<Rightarrow> string" where
  "completed_line dur used =
     ''[SuperDesignAgent] Task completed in '' @ string_of_int dur @ ''ms using '' @
     string_of_int (int used) @ '' tools''"

text \<open>The \<open>try\<close> block. Besides its outcome it gives the two local lists and the world as
  they stand when it ends, by \<open>return\<close> or by a throw.\<close>

definition try_block ::
  "sdk \<Rightarrow> task_clock \<Rightarrow> string \<Rightarrow> AgentOptions option \<Rightarrow> string \<Rightarrow> world
     \<Rightarrow> (js_error + TaskResult) \<times> locals \<times> world" where
  "try_block generateText clk request options sessionIdent w =
     (let w1 = (if map_of (conversationHistory w) sessionIdent = None
                then w\<lparr> conversationHistory := AList.update sessionIdent [] (conversationHistory w) \<rparr>
                else w);
          history = (case map_of (conversationHistory w1) sessionIdent of Some h \<Rightarrow> h | None \<Rightarrow> []);
          userMessage = \<lparr> role = RUser, content = request, timestamp = Some (user_now clk) \<rparr>;
          history1 = history @ [userMessage];
          w2 = w1\<lparr> conversationHistory := AList.update sessionIdent history1 (conversationHistory w1) \<rparr>;
          l = \<lparr> l_messages = [createUserMessage request sessionIdent], l_toolsUsed = [] \<rparr>
      in case generateWithTools generateText history1 (opt options o_maxTokens)
                (opt options o_temperature) (Some (num_or (opt options maxSteps) 25)) sessionIdent w2 of
           (Inl err, w3) \<Rightarrow> (Inl err, l, w3)
         | (Inr llmResponse, w3) \<Rightarrow>
             (let (l1, w4) =
                    (if g_content llmResponse \<noteq> [] then
                       (let assistantMessage =
                              \<lparr> role = RAssistant, content = g_content llmResponse,
                                timestamp = Some (assistant_stamp clk) \<rparr>
                        in (l\<lparr> l_messages := l_messages l @
                                 [createAssistantMessage (g_content llmResponse) sessionIdent
                                    (Some (assistant_now clk - start_now clk))] \<rparr>,
                            w3\<lparr> conversationHistory :=
                                  AList.update sessionIdent (history1 @ [assistantMessage])
                                    (conversationHistory w3) \<rparr>))
                     else (l, w3))
              in case (if g_steps llmResponse \<noteq> []
                       then process_steps options sessionIdent (g_steps llmResponse) l1 w4
                       else (None, l1, w4)) of
                   (Some err, l2, w5) \<Rightarrow> (Inl err, l2, w5)
                 | (None, l2, w5) \<Rightarrow>
                     (case appendLine (completed_line (end_now clk - start_now clk)
                                         (length (l_toolsUsed l2))) w5 of
                        (Some channel_error, w6) \<Rightarrow> (Inl channel_error, l2, w6)
                      | (None, w6) \<Rightarrow>
                          (Inr \<lparr> success = True,
                                 messages = l_messages l2,
                                 finalMessage = Some (final_message (g_content llmResponse) (l_messages l2)),
                                 toolsUsed = spread_Set (l_toolsUsed l2),
                                 duration = end_now clk - start_now clk,
                                 totalCost = calculateTotalCost (l_messages l2),
                                 error = None \<rparr>, l2, w6))))"

text \<open>The \<open>catch\<close> block: it turns the error into text, writes the failure line, and only
  then builds the result. When the error has no string form, or when the channel throws on
  the failure line, that exception leaves the block and with it the method.\<close>

definition catch_block ::
  "task_clock \<Rightarrow> string \<Rightarrow> js_error \<Rightarrow> locals \<Rightarrow> world \<Rightarrow> (js_error + TaskResult) \<times> world" where
  "catch_block clk sessionIdent err l w =
     (case error_message_of err of
        Inl conversion_error \<Rightarrow> (Inl conversion_error, w)
      | Inr errorMessage \<Rightarrow>
          (case appendLine (''[SuperDesignAgent] Task failed: '' @ errorMessage) w of
             (Some channel_error, w1) \<Rightarrow> (Inl channel_error, w1)
           | (None, w1) \<Rightarrow>
               (Inr \<lparr> success = False,
                      messages = l_messages l @ [createErrorMessage (ErrorString errorMessage) sessionIdent],
                      finalMessage = Some errorMessage,
                      toolsUsed = spread_Set (l_toolsUsed l),
                      duration = end_now clk - start_now clk,
                      totalCost = None,
                      error = Some errorMessage \<rparr>, w1)))"

definition task_session :: "task_clock \<Rightarrow> AgentOptions option \<Rightarrow> string" where
  "task_session clk options =
     str_or (opt options sessionId) (''session-'' @ string_of_int (session_now clk))"

definition executeTaskWithStreaming ::
  "sdk \<Rightarrow> task_clock \<Rightarrow> string \<Rightarrow> AgentOptions option \<Rightarrow> world \<Rightarrow> (js_error + TaskResult) \<times> world" where
  "executeTaskWithStreaming generateText clk request options w =
     (let sessionIdent = task_session clk options
      in case try_block generateText clk request options sessionIdent w of
           (Inr result, l, w') \<Rightarrow> (Inr result, w')
         | (Inl err, l, w') \<Rightarrow> catch_block clk sessionIdent err l w')"

definition executeTask ::
  "sdk \<Rightarrow> task_clock \<Rightarrow> string \<Rightarrow> string \<Rightarrow> AgentOptions option \<Rightarrow> world \<Rightarrow> (js_error + TaskResult) \<times> world" where
  "executeTask generateText clk request path options w =
     executeTaskWithStreaming generateText clk request options
       (if path \<noteq> workingDirectory w then setWorkingDirectory path w else w)"

text \<open>
  \<open>query\<close> writes a line and calls \<open>this.executeTaskWithStreaming\<close> inside \<open>try\<close>. Its
  \<open>catch\<close> block writes the error in a template literal, wraps a thrown value that is no
  Error object into one, and returns a single error message; a conversion or a channel that
  throws there makes \<open>query\<close> throw. The body is given once for any implementation of
  \<open>executeTaskWithStreaming\<close> and then for the agent's own. The first argument is the
  clock reading of the default session id.
\<close>

definition query_session :: "int \<Rightarrow> AgentOptions option \<Rightarrow> string" where
  "query_session now options = str_or (opt options sessionId) (''session-'' @ string_of_int now)"

definition query_options ::
  "int \<Rightarrow> AgentOptions option \<Rightarrow> bool option \<Rightarrow> callback option \<Rightarrow> AgentOptions" where
  "query_options now options abortCtl onMsg =
     (spread options)\<lparr> sessionId := Some (query_session now options),
                       abortController := abortCtl, onMessage := onMsg \<rparr>"

text \<open>\<open>error instanceof Error ? error : new Error(String(error))\<close>\<close>

fun as_Error :: "js_error \<Rightarrow> js_error + js_error" where
  "as_Error (JsError n m) = Inr (JsError n m)"
| "as_Error e = (case String_of e of Inl conversion_error \<Rightarrow> Inl conversion_error
                                   | Inr s \<Rightarrow> Inr (new_Error s))"

definition query_catch :: "string \<Rightarrow> js_error \<Rightarrow> world \<Rightarrow> (js_error + SDKMessage list) \<times> world" where
  "query_catch sessionIdent err w =
     (case template_of err of
        Inl conversion_error \<Rightarrow> (Inl conversion_error, w)
      | Inr shown \<Rightarrow>
          (case appendLine (''[SuperDesignAgent] Error in query: '' @ shown) w of
             (Some channel_error, w1) \<Rightarrow> (Inl channel_error, w1)
           | (None, w1) \<Rightarrow>
               (case as_Error err of
                  Inl conversion_error \<Rightarrow> (Inl conversion_error, w1)
                | Inr errorObject \<Rightarrow>
                    (Inr [createErrorMessage (ErrorObject errorObject) sessionIdent], w1))))"

definition processing_line :: "string \<Rightarrow> string" where
  "processing_line prompt = ''[SuperDesignAgent] Processing query: '' @ take 100 prompt @ ''...''"

definition query_via ::
  "executor \<Rightarrow> int \<Rightarrow> string \<Rightarrow> AgentOptions option \<Rightarrow> bool option \<Rightarrow> callback option \<Rightarrow> world
     \<Rightarrow> (js_error + SDKMessage list) \<times> world" where
  "query_via exec now prompt options abortCtl onMsg w =
     (let sessionIdent = query_session now options
      in case appendLine (processing_line prompt) w of
           (Some channel_error, w1) \<Rightarrow> query_catch sessionIdent channel_error w1
         | (None, w1) \<Rightarrow>
             (case exec prompt (Some (query_options now options abortCtl onMsg)) w1 of
                (Inr result, w2) \<Rightarrow> (Inr (messages result), w2)
              | (Inl err, w2) \<Rightarrow> query_catch sessionIdent err w2))"

definition query ::
  "sdk \<Rightarrow> task_clock \<Rightarrow> int \<Rightarrow> string \<Rightarrow> AgentOptions option \<Rightarrow> bool option \<Rightarrow> callback option \<Rightarrow> world
     \<Rightarrow> (js_error + SDKMessage list) \<times> world" where
  "query generateText clk now prompt options abortCtl onMsg w =
     query_via (executeTaskWithStreaming generateText clk) now prompt options abortCtl onMsg w"

section \<open>ClaudeCodeAgentWrapper\<close>

text \<open>The wrapped service is \<open>any\<close>: its \<open>query\<close> is a parameter, a function from the
  arguments to the messages it resolves to or the error it rejects with. The wrapper keeps
  no session map.\<close>

type_synonym claude_service =
  "string \<Rightarrow> AgentOptions option \<Rightarrow> bool option \<Rightarrow> callback option \<Rightarrow> js_error + SDKMessage list"

definition Wrapper_query ::
  "claude_service \<Rightarrow> string \<Rightarrow> AgentOptions option \<Rightarrow> bool option \<Rightarrow> callback option
     \<Rightarrow> js_error + SDKMessage list" where
  "Wrapper_query service prompt options abortCtl onMsg =
     (case service prompt options abortCtl onMsg of
        Inr msgs \<Rightarrow> Inr msgs
      | Inl err \<Rightarrow> Inl err)"

definition Wrapper_executeTaskWithStreaming ::
  "claude_service \<Rightarrow> string \<Rightarrow> AgentOptions option \<Rightarrow> js_error + TaskResult" where
  "Wrapper_executeTaskWithStreaming service request options =
     (case Wrapper_query service request options (opt options abortController) (opt options onMessage) of
        Inl err \<Rightarrow> Inl err
      | Inr msgs \<Rightarrow>
          Inr \<lparr> success = True,
                messages = msgs,
                finalMessage = (if msgs = [] then None else m_content (last msgs)),
                toolsUsed = [],
                duration = 0,
                totalCost = None,
                error = None \<rparr>)"

definition Wrapper_continueConversation ::
  "claude_service \<Rightarrow> string \<Rightarrow> string \<Rightarrow> AgentOptions option \<Rightarrow> js_error + AgentResponse" where
  "Wrapper_continueConversation service msg conversationId options =
     (case Wrapper_executeTaskWithStreaming service msg
             (Some ((spread options)\<lparr> sessionId := Some conversationId \<rparr>)) of
        Inl err \<Rightarrow> Inl err
      | Inr result \<Rightarrow>
          Inr \<lparr> ar_messages = messages result,
                isComplete = success result,
                suggestedActions = Some (if success result then [] else [''retry'', ''clarify'']),
                ar_context = [] \<rparr>)"

text \<open>The wrapper's \<open>getSession\<close> builds a new object on every call; the store of objects is
  all it touches.\<close>

definition Wrapper_getSession ::
  "int \<times> int \<Rightarrow> string \<Rightarrow> string \<Rightarrow> AgentSession list \<Rightarrow> ref \<times> AgentSession list" where
  "Wrapper_getSession clk sessionIdent path h =
     (length h,
      h @ [\<lparr> session_ident = sessionIdent, startTime = fst clk, lastActivity = snd clk,
              projectPath = path, turns = [], s_context = [] \<rparr>])"

definition Wrapper_cleanupSessions :: "int option \<Rightarrow> AgentSession list \<Rightarrow> AgentSession list" where
  "Wrapper_cleanupSessions maxAge h = h"

section \<open>Notions used to state the properties\<close>

text \<open>The uniform messages one step contributes: its tool-call messages, then its
  tool-result messages.\<close>

definition step_messages :: "string \<Rightarrow> step \<Rightarrow> SDKMessage list" where
  "step_messages sessionIdent s =
     map (tool_call_message sessionIdent) (step_calls s) @
     map (\<lambda>res. createToolResultMessage res sessionIdent) (step_results s)"

text \<open>The history a task sends to the service, and the request that reaches
  \<open>generateText\<close> once the model client \<open>m\<close> is chosen.\<close>

definition task_history :: "task_clock \<Rightarrow> string \<Rightarrow> string \<Rightarrow> world \<Rightarrow> ConversationMessage list" where
  "task_history clk request sessionIdent w =
     (case map_of (conversationHistory w) sessionIdent of Some h \<Rightarrow> h | None \<Rightarrow> []) @
     [\<lparr> role = RUser, content = request, timestamp = Some (user_now clk) \<rparr>]"

definition task_params ::
  "task_clock \<Rightarrow> string \<Rightarrow> AgentOptions option \<Rightarrow> world \<Rightarrow> model_client \<Rightarrow> generateParams" where
  "task_params clk request options w m =
     build_params (llmService w) m (task_history clk request (task_session clk options) w)
       (Some \<lparr> go_maxTokens = opt options o_maxTokens,
               go_temperature = opt options o_temperature,
               go_tools = Some (createToolSchemas (task_session clk options) w),
               go_maxSteps = Some (num_or (opt options maxSteps) 25) \<rparr>)"

text \<open>The message list the spec promises for a successful task whose provider answer is
  \<open>result\<close>: user message, assistant text if any, then the steps in order.\<close>

definition expected_messages :: "task_clock \<Rightarrow> string \<Rightarrow> string \<Rightarrow> sdk_result \<Rightarrow> SDKMessage list" where
  "expected_messages clk request sessionIdent result =
     createUserMessage request sessionIdent #
     (if sdk_text result \<noteq> []
      then [createAssistantMessage (sdk_text result) sessionIdent
              (Some (assistant_now clk - start_now clk))]
      else []) @
     concat (map (step_messages sessionIdent) (case steps result of Some ss \<Rightarrow> ss | None \<Rightarrow> []))"

text \<open>The two local lists, and the world, as they stand when the \<open>try\<close> block of a task
  ends.\<close>

definition built_so_far :: "sdk \<Rightarrow> task_clock \<Rightarrow> string \<Rightarrow> AgentOptions option \<Rightarrow> world \<Rightarrow> locals" where
  "built_so_far generateText clk request options w =
     fst (snd (try_block generateText clk request options (task_session clk options) w))"

definition world_at_catch :: "sdk \<Rightarrow> task_clock \<Rightarrow> string \<Rightarrow> AgentOptions option \<Rightarrow> world \<Rightarrow> world" where
  "world_at_catch generateText clk request options w =
     snd (snd (try_block generateText clk request options (task_session clk options) w))"

text \<open>The line the \<open>catch\<close> block of a task writes, and whether the channel takes a line
  without throwing.\<close>

definition failed_line :: "string \<Rightarrow> string" where
  "failed_line errorMessage = ''[SuperDesignAgent] Task failed: '' @ errorMessage"

definition accepts :: "world \<Rightarrow> string \<Rightarrow> bool" where
  "accepts w line = (fst (appendLine line w) = None)"



text \<open>The eviction threshold as the spec words it: \<open>maxAge\<close>, by default 24 hours in
  milliseconds.\<close>

definition threshold :: "int option \<Rightarrow> int" where
  "threshold maxAge = (case maxAge of None \<Rightarrow> 86400000 | Some a \<Rightarrow> a)"

text \<open>What a JavaScript \<open>Map\<close> of live references always satisfies: the keys are distinct
  and every reference points into the store of objects.\<close>

definition store_ok :: "world \<Rightarrow> bool" where
  "store_ok w =
     (distinct (map fst (sessions w)) \<and> list_all (\<lambda>entry. snd entry < length (heap w)) (sessions w))"

section \<open>Sample inputs\<close>

definition example_config :: LLMServiceConfig where
  "example_config =
     \<lparr> provider = \<lparr> name = ''openai'', model = Some ''gpt-4o-mini'', apiKey = Some ''sk-test'' \<rparr>,
       maxTokens = Some 2000, temperature = None, tools = None, systemPrompt = Some ''Be brief.'' \<rparr>"

definition example_session :: "int \<Rightarrow> string \<Rightarrow> AgentSession" where
  "example_session t ident =
     \<lparr> session_ident = ident, startTime = 0, lastActivity = t, projectPath = ''/project'',
       turns = [], s_context = [] \<rparr>"

text \<open>An agent with two sessions, last active at 3999 ms and at 4001 ms, and an output
  channel that takes every line.\<close>

definition example_world :: world where
  "example_world =
     \<lparr> workingDirectory = ''/project'',
       registry_tools = (\<lambda>ctx. [(''read'', JsObject ''{}''), (''write'', JsObject ''{}'')]),
       registry_names = [''read'', ''write''],
       llmService = example_config,
       sessions = [(''s1'', 0), (''s2'', 1)],
       conversationHistory = [],
       isInitializedFlag = True,
       heap = [example_session 3999 ''s1'', example_session 4001 ''s2''],
       process_env = Map.empty,
       channel = (\<lambda>handed. None),
       channel_calls = [],
       JSON_stringify = (\<lambda>toolCall. ''{}'') \<rparr>"

text \<open>The same agent with an output channel that throws on every line.\<close>

definition closed_channel_world :: world where
  "closed_channel_world = example_world\<lparr> channel := (\<lambda>handed. Some (new_Error ''channel closed'')) \<rparr>"

definition example_call :: "string \<Rightarrow> tool_call" where
  "example_call n =
     \<lparr> tc_toolName = Some n, tc_function = None, tc_name = None,
       tc_toolCallId = Some (''call-'' @ n), tc_id = None, tc_args = Some (JsObject ''{}'') \<rparr>"

text \<open>A provider answer in two steps: two calls of \<open>write\<close> with their results, then a call
  of \<open>read\<close>.\<close>

definition example_result :: sdk_result where
  "example_result =
     \<lparr> sdk_text = ''Done'', sdk_usage = None, finishReason = Some ''stop'',
       steps = Some [\<lparr> st_toolCalls = Some [example_call ''write'', example_call ''write''],
                       st_toolResults = Some [JsString ''ok'', JsString ''ok''] \<rparr>,
                     \<lparr> st_toolCalls = Some [example_call ''read''], st_toolResults = None \<rparr>] \<rparr>"

definition example_response :: LLMResponse where
  "example_response =
     \<lparr> r_content = ''Done'', r_usage = None, r_finishReason = Some ''stop'',
       r_toolCalls = [example_call ''write'', example_call ''write'', example_call ''read''],
       r_toolResults = [JsString ''ok'', JsString ''ok''],
       r_steps = [\<lparr> st_toolCalls = Some [example_call ''write'', example_call ''write''],
                    st_toolResults = Some [JsString ''ok'', JsString ''ok''] \<rparr>,
                  \<lparr> st_toolCalls = Some [example_call ''read''], st_toolResults = None \<rparr>] \<rparr>"

definition example_sdk :: sdk where
  "example_sdk params = Inr example_result"

definition failing_sdk :: sdk where
  "failing_sdk params = Inl (new_Error ''rate limited'')"

definition example_clock :: task_clock where
  "example_clock =
     \<lparr> start_now = 1000, session_now = 1000, user_now = 1001,
       assistant_stamp = 1500, assistant_now = 1500, end_now = 1600 \<rparr>"

definition example_options :: "AgentOptions option" where
  "example_options = Some (no_options\<lparr> sessionId := Some ''s1'' \<rparr>)"

text \<open>A caller whose callback throws on the fifth message of a task.\<close>

definition throwing_options :: "AgentOptions option" where
  "throwing_options =
     Some (no_options\<lparr> sessionId := Some ''s1'',
                       onMessage := Some (\<lambda>built. if length built = 5
                                                    then Some (NonError ''stop'') else None) \<rparr>)"

text \<open>A caller whose callback throws, on the fifth message, a value without a string form.\<close>

definition unprintable_options :: "AgentOptions option" where
  "unprintable_options =
     Some (no_options\<lparr> sessionId := Some ''s1'',
                       onMessage := Some (\<lambda>built. if length built = 5
                                                    then Some Unprintable else None) \<rparr>)"

text \<open>An implementation of \<open>executeTaskWithStreaming\<close> that throws, and a wrapped service
  that resolves to an error message.\<close>

definition throwing_executor :: executor where
  "throwing_executor request options w = (Inl (NonError ''boom''), w)"

definition error_service :: claude_service where
  "error_service prompt options abortCtl onMsg =
     Inr [createErrorMessage (ErrorString ''Claude Code failed'') ''s1'']"

definition example_turn_clock :: turn_clock where
  "example_turn_clock = \<lparr> activity_now = 5000, turn_id_now = 5600, turn_now = 5601 \<rparr>"

section \<open>Unfolding rules\<close>

lemmas js_defs =
  new_Error_def type_error_def or_str_def or_num_def str_or_def num_or_def string_of_int_def
  spread_Set_def opt_def or_tools_def or_json_def

lemmas service_defs =
  validateConfig_def LLMService_new_def merge_config_def updateConfig_def restore_slot_def
  getModel_def formatMessages_def build_params_def wrap_generate_error_def generateResponse_def
  step_calls_def step_results_def

lemmas adapter_defs =
  blank_def createUserMessage_def createAssistantMessage_def createErrorMessage_def
  createToolCallMessage_def createToolResultMessage_def calculateTotalCost_def is_error_message_def

lemmas agent_defs =
  no_options_def spread_def createToolSchemas_def generateWithTools_def notify_def
  resolve_toolName_def tool_call_message_def final_message_def try_block_def catch_block_def
  task_session_def executeTaskWithStreaming_def query_session_def query_options_def
  query_catch_def processing_line_def query_via_def query_def appendLine_def completed_line_def

lemmas examples =
  example_config_def example_session_def example_world_def example_call_def example_result_def
  example_response_def example_sdk_def failing_sdk_def example_clock_def example_options_def throwing_options_def
  throwing_executor_def error_service_def example_turn_clock_def closed_channel_world_def
  unprintable_options_def

section \<open>Properties of the LLM service\<close>

subsection \<open>Configuration\<close>



subsection \<open>Model selection and the credential slot\<close>

text \<open>When the slot is absent or holds a non-empty value, \<open>getModel\<close> leaves the
  environment as it found it.\<close>

lemma getModel_restores:
  assumes "e (credential_slot (name (provider cfg))) \<noteq> Some []"
  shows "snd (getModel cfg e) = e"
  using assms
  by (cases "e (credential_slot (name (provider cfg)))")
     (auto simp: getModel_def restore_slot_def credential_slot_def Let_def fun_upd_idem
           split: if_splits)

text \<open>
  Claim C9. After \<open>getModel\<close> returns, the provider's credential slot holds exactly the
  value it held before the call. The code restores the old value only when it is truthy:
  with the slot \<open>OPENAI_API_KEY\<close> set to the empty string, \<open>getModel\<close> for the provider
  \<open>openai\<close> returns its client and leaves the slot deleted.
\<close>

theorem getModel_deletes_empty_slot:
  "(Map.empty(''OPENAI_API_KEY'' \<mapsto> '''')) ''OPENAI_API_KEY'' = Some '''' \<and>
   fst (getModel example_config (Map.empty(''OPENAI_API_KEY'' \<mapsto> '''')))
     = Inr (OpenAIModel (Some ''gpt-4o-mini'')) \<and>
   snd (getModel example_config (Map.empty(''OPENAI_API_KEY'' \<mapsto> ''''))) ''OPENAI_API_KEY'' = None"
  by (simp add: getModel_def restore_slot_def example_config_def)

subsection \<open>Flattening of steps\<close>

lemma collect_steps_eq:
  "collect_steps ss (cs, rs) = (cs @ concat (map step_calls ss), rs @ concat (map step_results ss))"
  by (induction ss arbitrary: cs rs) (auto simp: step_calls_def step_results_def split: option.splits)

text \<open>
  Claim C3. For every conversation history and tool set, a result returned by
  \<open>generateResponse\<close> has a \<open>toolCalls\<close> list whose length is the sum over the returned
  steps of each step's number of tool calls, and a \<open>toolResults\<close> list whose length is the
  sum of each step's number of tool results: every call and result of every step is in the
  flat lists, in step order.
\<close>

theorem generateResponse_flattens:
  assumes "fst (generateResponse generateText cfg H options e) = Inr r"
  shows "length (r_toolCalls r) = sum_list (map (\<lambda>s. length (step_calls s)) (r_steps r)) \<and>
         length (r_toolResults r) = sum_list (map (\<lambda>s. length (step_results s)) (r_steps r)) \<and>
         r_toolCalls r = concat (map step_calls (r_steps r)) \<and>
         r_toolResults r = concat (map step_results (r_steps r))"
proof -
  have flat: "r_toolCalls r = concat (map step_calls (r_steps r)) \<and>
              r_toolResults r = concat (map step_results (r_steps r))"
    using assms
    by (auto simp: generateResponse_def collect_steps_eq split: prod.splits sum.splits option.splits)
  then show ?thesis by (simp add: length_concat comp_def)
qed

theorem generateResponse_flattens_witness:
  "fst (generateResponse example_sdk example_config [] None Map.empty) = Inr example_response \<and>
   length (r_toolCalls example_response) = 3 \<and>
   sum_list (map (\<lambda>s. length (step_calls s)) (r_steps example_response)) = 3 \<and>
   length (r_toolResults example_response) = 2 \<and>
   sum_list (map (\<lambda>s. length (step_results s)) (r_steps example_response)) = 2"
proof -
  have h: "fst (generateResponse example_sdk example_config [] None Map.empty) = Inr example_response"
    by (simp add: generateResponse_def getModel_def restore_slot_def example_sdk_def
          example_config_def example_result_def example_response_def)
  have c: "length (r_toolCalls example_response) = 3"
    and r: "length (r_toolResults example_response) = 2"
    by (simp_all add: example_response_def)
  from generateResponse_flattens[OF h]
  have "length (r_toolCalls example_response)
          = sum_list (map (\<lambda>s. length (step_calls s)) (r_steps example_response))"
    and "length (r_toolResults example_response)
          = sum_list (map (\<lambda>s. length (step_results s)) (r_steps example_response))"
    by blast+
  with c r h show ?thesis by presburger
qed

section \<open>Properties of the session store\<close>

text \<open>
  Claim C5. For every conversation id that is not in the agent's session store,
  \<open>continueConversation\<close> fails with the session-not-found error and leaves the agent as it
  was: no session with that id is created.
\<close>

theorem continueConversation_unknown_session:
  assumes "map_of (sessions w) conversationId = None"
  shows "continueConversation exec clk msg conversationId options w
           = (Inl (session_not_found conversationId), w)"
  using assms by (simp add: continueConversation_def)

theorem continueConversation_unknown_session_witness:
  "map_of (sessions example_world) ''s3'' = None \<and>
   continueConversation throwing_executor example_turn_clock ''go on'' ''s3'' None example_world
     = (Inl (new_Error ''Session s3 not found''), example_world)"
proof -
  have h: "map_of (sessions example_world) ''s3'' = None"
    by (simp add: example_world_def)
  from continueConversation_unknown_session[OF h] h show ?thesis
    by (simp add: session_not_found_def)
qed

text \<open>
  Claim C6, as amended. For \<open>BaseAgent\<close> (and \<open>SuperDesignCodingAgent\<close>, which inherits
  the method), calling \<open>getSession\<close> twice in succession returns the same session object
  both times and the second call changes nothing, and a session already in the store is
  returned as it is. \<open>ClaudeCodeAgentWrapper.getSession\<close> keeps no store: every call builds
  a new session object with no turns.
\<close>

theorem getSession_idempotent:
  "getSession clk2 ident path (snd (getSession clk1 ident path w))
     = (fst (getSession clk1 ident path w), snd (getSession clk1 ident path w)) \<and>
   (\<forall>session. map_of (sessions w) ident = Some session \<longrightarrow>
      getSession clk1 ident path w = (session, w)) \<and>
   fst (Wrapper_getSession clk2 ident path (snd (Wrapper_getSession clk1 ident path h)))
     = Suc (fst (Wrapper_getSession clk1 ident path h)) \<and>
   turns (snd (Wrapper_getSession clk1 ident path h) ! fst (Wrapper_getSession clk1 ident path h)) = []"
  by (auto simp: getSession_def Wrapper_getSession_def Let_def AList.update_conv' split: option.splits)

theorem getSession_idempotent_witness:
  "map_of (sessions example_world) ''s2'' = Some 1 \<and>
   getSession (7000, 7000) ''s2'' ''/other'' example_world = (1, example_world) \<and>
   fst (getSession (7000, 7000) ''s3'' ''/project'' example_world) = 2 \<and>
   fst (getSession (8000, 8000) ''s3'' ''/project''
          (snd (getSession (7000, 7000) ''s3'' ''/project'' example_world))) = 2"
  using getSession_idempotent[of "(7000, 7000)" "''s2''" "''/other''" "(7000, 7000)" example_world]
        getSession_idempotent[of "(8000, 8000)" "''s3''" "''/project''" "(7000, 7000)" example_world]
  by (simp add: getSession_def example_world_def)

text \<open>Claim C6 as first stated, for every agent implementation, fails for the wrapper: two
  calls in succession on an empty store of objects return two different references.\<close>

theorem Wrapper_getSession_fresh_object:
  "fst (Wrapper_getSession (0, 0) ''s1'' ''/project''
          (snd (Wrapper_getSession (0, 0) ''s1'' ''/project'' [])))
     \<noteq> fst (Wrapper_getSession (0, 0) ''s1'' ''/project'' [])"
  by (simp add: Wrapper_getSession_def)

lemma sweep_map_of:
  "map_of (sweep now age h entries store) k =
     (if \<exists>r. (k, r) \<in> set entries \<and> now - lastActivity (h ! r) > age then None
      else map_of store k)"
proof (induction entries arbitrary: store)
  case Nil
  then show ?case by simp
next
  case (Cons e entries)
  obtain k' r' where e: "e = (k', r')" by (cases e)
  show ?case unfolding e
    by (auto simp: Cons.IH AList.delete_conv')
qed

lemma cleanupSessions_map_of:
  assumes "distinct (map fst (sessions w))"
  shows "map_of (sessions (cleanupSessions maxAge now w)) ident =
           (case map_of (sessions w) ident of
              None \<Rightarrow> None
            | Some r \<Rightarrow>
                if now - lastActivity (heap w ! r) > threshold maxAge then None else Some r)"
proof -
  have ex: "(\<exists>r. (ident, r) \<in> set (sessions w) \<and> now - lastActivity (heap w ! r) > threshold maxAge) \<longleftrightarrow>
            (\<exists>r. map_of (sessions w) ident = Some r \<and> now - lastActivity (heap w ! r) > threshold maxAge)"
    using assms by simp
  have "map_of (sessions (cleanupSessions maxAge now w)) ident =
          map_of (sweep now (threshold maxAge) (heap w) (sessions w) (sessions w)) ident"
    by (cases maxAge) (simp_all add: cleanupSessions_def default_maxAge_def threshold_def)
  also have "\<dots> = (if \<exists>r. map_of (sessions w) ident = Some r \<and>
                            now - lastActivity (heap w ! r) > threshold maxAge
                    then None else map_of (sessions w) ident)"
    unfolding sweep_map_of ex ..
  also have "\<dots> = (case map_of (sessions w) ident of
              None \<Rightarrow> None
            | Some r \<Rightarrow> if now - lastActivity (heap w ! r) > threshold maxAge then None else Some r)"
    by (cases "map_of (sessions w) ident") auto
  finally show ?thesis .
qed

text \<open>
  Claim C7. For every state of the session store, \<open>cleanupSessions(maxAge)\<close> removes
  exactly the sessions whose \<open>lastActivity\<close> is older than \<open>maxAge\<close> relative to the
  current time: a session last active at \<open>now - (maxAge + 1)\<close> is removed, one last active
  at \<open>now - (maxAge - 1)\<close> is retained, and without \<open>maxAge\<close> the threshold is 24 hours in
  milliseconds.
\<close>

theorem cleanupSessions_evicts_expired:
  assumes "distinct (map fst (sessions w))"
  shows "(\<forall>ident. map_of (sessions (cleanupSessions maxAge now w)) ident =
            (case map_of (sessions w) ident of
               None \<Rightarrow> None
             | Some r \<Rightarrow>
                 if now - lastActivity (heap w ! r) > threshold maxAge then None else Some r)) \<and>
         (\<forall>ident r. map_of (sessions w) ident = Some r \<and>
                     lastActivity (heap w ! r) = now - (threshold maxAge + 1) \<longrightarrow>
            map_of (sessions (cleanupSessions maxAge now w)) ident = None) \<and>
         (\<forall>ident r. map_of (sessions w) ident = Some r \<and>
                     lastActivity (heap w ! r) = now - (threshold maxAge - 1) \<longrightarrow>
            map_of (sessions (cleanupSessions maxAge now w)) ident = Some r) \<and>
         threshold None = 24 * 60 * 60 * 1000 \<and>
         heap (cleanupSessions maxAge now w) = heap w"
proof (intro conjI allI impI)
  fix ident
  show "map_of (sessions (cleanupSessions maxAge now w)) ident =
            (case map_of (sessions w) ident of
               None \<Rightarrow> None
             | Some r \<Rightarrow>
                 if now - lastActivity (heap w ! r) > threshold maxAge then None else Some r)"
    by (rule cleanupSessions_map_of[OF assms])
next
  fix ident r
  assume "map_of (sessions w) ident = Some r \<and>
          lastActivity (heap w ! r) = now - (threshold maxAge + 1)"
  then show "map_of (sessions (cleanupSessions maxAge now w)) ident = None"
    by (simp add: cleanupSessions_map_of[OF assms])
next
  fix ident r
  assume "map_of (sessions w) ident = Some r \<and>
          lastActivity (heap w ! r) = now - (threshold maxAge - 1)"
  then show "map_of (sessions (cleanupSessions maxAge now w)) ident = Some r"
    by (simp add: cleanupSessions_map_of[OF assms])
next
  show "threshold None = 24 * 60 * 60 * 1000"
    by (simp add: threshold_def)
next
  show "heap (cleanupSessions maxAge now w) = heap w"
    by (simp add: cleanupSessions_def Let_def)
qed

theorem cleanupSessions_evicts_expired_witness:
  "distinct (map fst (sessions example_world)) \<and>
   lastActivity (heap example_world ! 0) = 5000 - (1000 + 1) \<and>
   lastActivity (heap example_world ! 1) = 5000 - (1000 - 1) \<and>
   map_of (sessions (cleanupSessions (Some 1000) 5000 example_world)) ''s1'' = None \<and>
   map_of (sessions (cleanupSessions (Some 1000) 5000 example_world)) ''s2'' = Some 1 \<and>
   map_of (sessions (cleanupSessions None 5000 example_world)) ''s1'' = Some 0"
proof -
  have d: "distinct (map fst (sessions example_world))"
    by (simp add: example_world_def)
  from cleanupSessions_evicts_expired[OF d, of "Some 1000" 5000]
       cleanupSessions_evicts_expired[OF d, of None 5000] d
  show ?thesis
    by (simp add: example_world_def example_session_def threshold_def)
qed

subsection \<open>The store stays well formed\<close>

lemma sweep_keeps:
  "distinct (map fst store) \<Longrightarrow> list_all P store \<Longrightarrow>
     distinct (map fst (sweep now age h entries store)) \<and> list_all P (sweep now age h entries store)"
proof (induction entries arbitrary: store)
  case Nil
  then show ?case by simp
next
  case (Cons e entries)
  obtain k r where e: "e = (k, r)" by (cases e)
  have "distinct (map fst (AList.delete k store))"
    using Cons.prems(1) by (rule AList.distinct_delete)
  moreover have "list_all P (AList.delete k store)"
    using Cons.prems(2) by (simp add: AList.delete_eq list_all_iff)
  ultimately show ?case
    using Cons.IH Cons.prems unfolding e by simp
qed

lemma store_ok_cleanupSessions: "store_ok w \<Longrightarrow> store_ok (cleanupSessions maxAge now w)"
  using sweep_keeps[of "sessions w" "\<lambda>entry. snd entry < length (heap w)"]
  by (simp add: store_ok_def cleanupSessions_def Let_def)

lemma list_all_update:
  "list_all P al \<Longrightarrow> P (k, v) \<Longrightarrow> list_all P (AList.update k v al)"
  by (induction al) auto

lemma store_ok_getSession: "store_ok w \<Longrightarrow> store_ok (snd (getSession clk ident path w))"
proof (cases "map_of (sessions w) ident")
  case None
  assume ok: "store_ok w"
  have "list_all (\<lambda>entry. snd entry < Suc (length (heap w))) (sessions w)"
    using ok by (auto simp: store_ok_def list_all_iff)
  then have "list_all (\<lambda>entry. snd entry < Suc (length (heap w)))
          (AList.update ident (length (heap w)) (sessions w))"
    by (rule list_all_update) simp
  then show ?thesis
    using ok None by (simp add: store_ok_def getSession_def Let_def AList.distinct_update)
next
  case (Some r)
  assume "store_ok w"
  then show ?thesis using Some by (simp add: getSession_def)
qed

lemma store_ok_initial: "store_ok (w\<lparr> sessions := [], heap := [] \<rparr>)"
  by (simp add: store_ok_def)

section \<open>Properties of the coding agent\<close>

subsection \<open>The loops over steps\<close>

lemma process_toolCalls_None:
  "process_toolCalls options sid cs l w = (None, l', w') \<Longrightarrow>
     l_messages l' = l_messages l @ map (tool_call_message sid) cs \<and>
     l_toolsUsed l' = l_toolsUsed l @ map resolve_toolName cs"
  by (induction cs arbitrary: l w) (auto simp: Let_def split: option.splits prod.splits)

lemma process_toolResults_None:
  "process_toolResults options sid rs l = (None, l') \<Longrightarrow>
     l_messages l' = l_messages l @ map (\<lambda>r. createToolResultMessage r sid) rs \<and>
     l_toolsUsed l' = l_toolsUsed l"
  by (induction rs arbitrary: l) (auto simp: Let_def split: option.splits)

lemma process_steps_None:
  "process_steps options sid ss l w = (None, l', w') \<Longrightarrow>
     l_messages l' = l_messages l @ concat (map (step_messages sid) ss) \<and>
     l_toolsUsed l' = l_toolsUsed l @ concat (map (map resolve_toolName \<circ> step_calls) ss)"
proof (induction ss arbitrary: l w)
  case Nil
  then show ?case by simp
next
  case (Cons s ss)
  obtain oc l1 w1 where c:
    "(case st_toolCalls s of Some cs \<Rightarrow> process_toolCalls options sid cs l w | None \<Rightarrow> (None, l, w))
       = (oc, l1, w1)"
    by (cases "(case st_toolCalls s of Some cs \<Rightarrow> process_toolCalls options sid cs l w | None \<Rightarrow> (None, l, w))") auto
  obtain orr l2 where r:
    "(case st_toolResults s of Some rs \<Rightarrow> process_toolResults options sid rs l1 | None \<Rightarrow> (None, l1)) = (orr, l2)"
    by (cases "(case st_toolResults s of Some rs \<Rightarrow> process_toolResults options sid rs l1 | None \<Rightarrow> (None, l1))") auto
  from Cons.prems c have oc: "oc = None"
    by (auto split: option.splits)
  from Cons.prems c r oc have orr: "orr = None"
    by (auto split: option.splits)
  from Cons.prems c r oc orr have rest: "process_steps options sid ss l2 w1 = (None, l', w')"
    by simp
  from c oc have m1:
    "l_messages l1 = l_messages l @ map (tool_call_message sid) (step_calls s) \<and>
     l_toolsUsed l1 = l_toolsUsed l @ map resolve_toolName (step_calls s)"
    by (auto simp: step_calls_def dest: process_toolCalls_None split: option.splits)
  from r orr have m2:
    "l_messages l2 = l_messages l1 @ map (\<lambda>r. createToolResultMessage r sid) (step_results s) \<and>
     l_toolsUsed l2 = l_toolsUsed l1"
    by (auto simp: step_results_def dest: process_toolResults_None split: option.splits)
  from Cons.IH[OF rest] m1 m2 show ?case
    by (simp add: step_messages_def)
qed

subsection \<open>The try block\<close>

lemma num_or_idem: "num_or (Some (num_or a d)) d = num_or a d"
  by (simp add: num_or_def split: option.splits)

lemma generateWithTools_Inr:
  assumes "generateWithTools gt h mt t ms sid w = (Inr g, w')"
  shows "\<exists>m result. fst (getModel (llmService w) (process_env w)) = Inr m \<and>
           gt (build_params (llmService w) m h
                 (Some \<lparr> go_maxTokens = mt, go_temperature = t,
                         go_tools = Some (createToolSchemas sid w),
                         go_maxSteps = Some (num_or ms 25) \<rparr>)) = Inr result \<and>
           g_content g = sdk_text result \<and>
           g_steps g = (case steps result of Some ss \<Rightarrow> ss | None \<Rightarrow> [])"
  using assms
  by (auto simp: generateWithTools_def generateResponse_def split: prod.splits sum.splits option.splits)

lemma history_after_ensure:
  "(case map_of (conversationHistory
       (if map_of (conversationHistory w) sid = None
        then w\<lparr> conversationHistory := AList.update sid [] (conversationHistory w) \<rparr>
        else w)) sid of Some h \<Rightarrow> h | None \<Rightarrow> [])
   = (case map_of (conversationHistory w) sid of Some h \<Rightarrow> h | None \<Rightarrow> [])"
  by (auto simp: AList.update_conv' split: option.splits)

lemma try_block_success:
  assumes "try_block gt clk request options sid w = (Inr r, l, w')"
  shows "\<exists>m result. fst (getModel (llmService w) (process_env w)) = Inr m \<and>
           gt (build_params (llmService w) m (task_history clk request sid w)
                 (Some \<lparr> go_maxTokens = opt options o_maxTokens,
                         go_temperature = opt options o_temperature,
                         go_tools = Some (createToolSchemas sid w),
                         go_maxSteps = Some (num_or (opt options maxSteps) 25) \<rparr>)) = Inr result \<and>
           messages r = expected_messages clk request sid result \<and> success r \<and>
           toolsUsed r = spread_Set (concat (map (map resolve_toolName \<circ> step_calls)
                            (case steps result of Some ss \<Rightarrow> ss | None \<Rightarrow> [])))"
proof -
  let ?w1 = "(if map_of (conversationHistory w) sid = None
                then w\<lparr> conversationHistory := AList.update sid [] (conversationHistory w) \<rparr>
                else w)"
  let ?h1 = "task_history clk request sid w"
  let ?w2 = "?w1\<lparr> conversationHistory := AList.update sid ?h1 (conversationHistory ?w1) \<rparr>"
  let ?l = "\<lparr> l_messages = [createUserMessage request sid], l_toolsUsed = [] \<rparr>"
  obtain out w3 where g:
    "generateWithTools gt ?h1 (opt options o_maxTokens) (opt options o_temperature)
       (Some (num_or (opt options maxSteps) 25)) sid ?w2 = (out, w3)"
    by (cases "generateWithTools gt ?h1 (opt options o_maxTokens) (opt options o_temperature)
                 (Some (num_or (opt options maxSteps) 25)) sid ?w2") auto
  from assms g obtain resp where out: "out = Inr resp"
    by (cases out) (auto simp: try_block_def Let_def history_after_ensure task_history_def)
  from generateWithTools_Inr[OF g[unfolded out]]
  obtain m result where
    m: "fst (getModel (llmService ?w2) (process_env ?w2)) = Inr m" and
    res: "gt (build_params (llmService ?w2) m ?h1
                 (Some \<lparr> go_maxTokens = opt options o_maxTokens,
                         go_temperature = opt options o_temperature,
                         go_tools = Some (createToolSchemas sid ?w2),
                         go_maxSteps = Some (num_or (Some (num_or (opt options maxSteps) 25)) 25) \<rparr>))
            = Inr result" and
    c: "g_content resp = sdk_text result" and
    s: "g_steps resp = (case steps result of Some ss \<Rightarrow> ss | None \<Rightarrow> [])"
    by blast
  have same: "llmService ?w2 = llmService w" "process_env ?w2 = process_env w"
       "createToolSchemas sid ?w2 = createToolSchemas sid w"
    by (simp_all add: createToolSchemas_def)
  let ?l1 = "(if g_content resp \<noteq> [] then
               ?l\<lparr> l_messages := l_messages ?l @
                     [createAssistantMessage (g_content resp) sid
                        (Some (assistant_now clk - start_now clk))] \<rparr>
             else ?l)"
  let ?w4 = "(if g_content resp \<noteq> [] then
                w3\<lparr> conversationHistory :=
                      AList.update sid
                        (?h1 @ [\<lparr> role = RAssistant, content = g_content resp,
                                   timestamp = Some (assistant_stamp clk) \<rparr>])
                        (conversationHistory w3) \<rparr>
              else w3)"
  obtain oe l2 w5 where ps:
    "(if g_steps resp \<noteq> [] then process_steps options sid (g_steps resp) ?l1 ?w4
      else (None, ?l1, ?w4)) = (oe, l2, w5)"
    by (cases "(if g_steps resp \<noteq> [] then process_steps options sid (g_steps resp) ?l1 ?w4
                else (None, ?l1, ?w4))") auto
  from assms g out ps have oe: "oe = None"
    by (cases oe)
       (auto simp: try_block_def Let_def history_after_ensure task_history_def
             split: if_splits prod.splits option.splits)
  from ps oe have ps': "process_steps options sid (g_steps resp) ?l1 ?w4 = (None, l2, w5)"
    by (cases "g_steps resp") (auto split: if_splits)
  note pm = process_steps_None[OF ps']
  from assms g out ps oe have r:
    "messages r = l_messages l2" "success r" "toolsUsed r = spread_Set (l_toolsUsed l2)"
    by (auto simp: try_block_def Let_def history_after_ensure task_history_def
             split: if_splits prod.splits option.splits)
  have "messages r = expected_messages clk request sid result"
    using r pm c s by (auto simp: expected_messages_def)
  moreover have "toolsUsed r = spread_Set (concat (map (map resolve_toolName \<circ> step_calls)
                            (case steps result of Some ss \<Rightarrow> ss | None \<Rightarrow> [])))"
    using r pm s by auto
  ultimately show ?thesis
    using m res r same by (auto simp: num_or_idem)
qed

subsection \<open>Partial progress\<close>

text \<open>Whatever way the loops end, the messages they leave are those they found followed by
  an initial part of the messages of the steps; so what a failing task has built is an
  initial part of what the successful task would have returned.\<close>

lemma process_toolCalls_grows:
  "process_toolCalls options sid cs l w = (oe, l', w') \<Longrightarrow>
     \<exists>n. l_messages l' = l_messages l @ take n (map (tool_call_message sid) cs) \<and>
         l_toolsUsed l' = l_toolsUsed l @ take n (map resolve_toolName cs)"
proof (induction cs arbitrary: l w)
  case Nil
  then show ?case by simp
next
  case (Cons c cs)
  let ?l1 = "\<lparr> l_messages = l_messages l @ [tool_call_message sid c],
               l_toolsUsed = l_toolsUsed l @ [resolve_toolName c] \<rparr>"
  obtain ce w1 where a:
    "appendLine (''[DEBUG] Tool call structure: '' @ JSON_stringify w c) w = (ce, w1)"
    by (cases "appendLine (''[DEBUG] Tool call structure: '' @ JSON_stringify w c) w") auto
  show ?case
  proof (cases ce)
    case (Some channel_error)
    with Cons.prems a have "l' = l" by simp
    then have "l_messages l' = l_messages l @ take 0 (map (tool_call_message sid) (c # cs)) \<and>
               l_toolsUsed l' = l_toolsUsed l @ take 0 (map resolve_toolName (c # cs))"
      by simp
    then show ?thesis by blast
  next
    case None
    note quiet = None
    show ?thesis
    proof (cases "notify options (l_messages ?l1)")
      case (Some err)
      with Cons.prems a quiet have "l' = ?l1" by (simp add: Let_def)
      then have "l_messages l' = l_messages l @ take 1 (map (tool_call_message sid) (c # cs)) \<and>
                 l_toolsUsed l' = l_toolsUsed l @ take 1 (map resolve_toolName (c # cs))"
        by simp
      then show ?thesis by blast
    next
      case None
      with Cons.prems a quiet have "process_toolCalls options sid cs ?l1 w1 = (oe, l', w')"
        by (simp add: Let_def)
      from Cons.IH[OF this] obtain n where
        "l_messages l' = l_messages ?l1 @ take n (map (tool_call_message sid) cs)"
        "l_toolsUsed l' = l_toolsUsed ?l1 @ take n (map resolve_toolName cs)"
        by blast
      then have "l_messages l' = l_messages l @ take (Suc n) (map (tool_call_message sid) (c # cs)) \<and>
                 l_toolsUsed l' = l_toolsUsed l @ take (Suc n) (map resolve_toolName (c # cs))"
        by simp
      then show ?thesis by blast
    qed
  qed
qed

lemma process_toolResults_grows:
  "process_toolResults options sid rs l = (oe, l') \<Longrightarrow>
     \<exists>n. l_messages l' = l_messages l @ take n (map (\<lambda>r. createToolResultMessage r sid) rs) \<and>
         l_toolsUsed l' = l_toolsUsed l"
proof (induction rs arbitrary: l)
  case Nil
  then show ?case by simp
next
  case (Cons r rs)
  let ?l1 = "l\<lparr> l_messages := l_messages l @ [createToolResultMessage r sid] \<rparr>"
  show ?case
  proof (cases "notify options (l_messages ?l1)")
    case (Some err)
    with Cons.prems have "l' = ?l1" by (simp add: Let_def)
    then have "l_messages l' = l_messages l @ take 1 (map (\<lambda>r. createToolResultMessage r sid) (r # rs)) \<and>
               l_toolsUsed l' = l_toolsUsed l"
      by simp
    then show ?thesis by blast
  next
    case None
    with Cons.prems have "process_toolResults options sid rs ?l1 = (oe, l')" by (simp add: Let_def)
    from Cons.IH[OF this] obtain n where
      "l_messages l' = l_messages ?l1 @ take n (map (\<lambda>r. createToolResultMessage r sid) rs)"
      "l_toolsUsed l' = l_toolsUsed ?l1"
      by blast
    then have "l_messages l' = l_messages l @ take (Suc n) (map (\<lambda>r. createToolResultMessage r sid) (r # rs)) \<and>
               l_toolsUsed l' = l_toolsUsed l"
      by simp
    then show ?thesis by blast
  qed
qed

lemma take_prefix_append: "\<exists>k. take n xs = take k (xs @ ys)"
proof
  show "take n xs = take (min n (length xs)) (xs @ ys)"
    by (cases "n \<le> length xs") (simp_all add: min_def)
qed

lemma append_take_prefix: "\<exists>k. xs @ take n ys = take k (xs @ ys)"
proof
  show "xs @ take n ys = take (length xs + n) (xs @ ys)" by simp
qed

lemma process_steps_grows:
  "process_steps options sid ss l w = (oe, l', w') \<Longrightarrow>
     \<exists>n. l_messages l' = l_messages l @ take n (concat (map (step_messages sid) ss))"
proof (induction ss arbitrary: l w)
  case Nil
  then show ?case by simp
next
  case (Cons s ss)
  let ?calls = "map (tool_call_message sid) (step_calls s)"
  let ?results = "map (\<lambda>r. createToolResultMessage r sid) (step_results s)"
  let ?rest = "concat (map (step_messages sid) ss)"
  have all: "concat (map (step_messages sid) (s # ss)) = ?calls @ ?results @ ?rest"
    by (simp add: step_messages_def)
  obtain oc l1 w1 where c:
    "(case st_toolCalls s of Some cs \<Rightarrow> process_toolCalls options sid cs l w | None \<Rightarrow> (None, l, w))
       = (oc, l1, w1)"
    by (cases "(case st_toolCalls s of Some cs \<Rightarrow> process_toolCalls options sid cs l w | None \<Rightarrow> (None, l, w))") auto
  then obtain n1 where n1: "l_messages l1 = l_messages l @ take n1 ?calls"
    by (cases "st_toolCalls s") (auto simp: step_calls_def dest: process_toolCalls_grows)
  show ?case
  proof (cases oc)
    case (Some err)
    with Cons.prems c have "l' = l1" by simp
    with n1 take_prefix_append[of n1 ?calls "?results @ ?rest"] show ?thesis
      unfolding all by auto
  next
    case None
    with c have full: "l_messages l1 = l_messages l @ ?calls"
      by (cases "st_toolCalls s") (auto simp: step_calls_def dest: process_toolCalls_None)
    obtain orr l2 where r:
      "(case st_toolResults s of Some rs \<Rightarrow> process_toolResults options sid rs l1 | None \<Rightarrow> (None, l1)) = (orr, l2)"
      by (cases "(case st_toolResults s of Some rs \<Rightarrow> process_toolResults options sid rs l1 | None \<Rightarrow> (None, l1))") auto
    then obtain n2 where n2: "l_messages l2 = l_messages l1 @ take n2 ?results"
      by (cases "st_toolResults s") (auto simp: step_results_def dest: process_toolResults_grows)
    show ?thesis
    proof (cases orr)
      case (Some err)
      with Cons.prems c None r have "l' = l2" by simp
      moreover obtain k where "take n2 ?results = take k (?results @ ?rest)"
        using take_prefix_append by blast
      moreover obtain k' where "?calls @ take k (?results @ ?rest) = take k' (?calls @ ?results @ ?rest)"
        using append_take_prefix by blast
      ultimately show ?thesis
        unfolding all using n2 full by auto
    next
      case None': None
      with r have full2: "l_messages l2 = l_messages l1 @ ?results"
        by (cases "st_toolResults s") (auto simp: step_results_def dest: process_toolResults_None)
      from Cons.prems c None r None' have "process_steps options sid ss l2 w1 = (oe, l', w')" by simp
      from Cons.IH[OF this] obtain n where "l_messages l' = l_messages l2 @ take n ?rest"
        by blast
      moreover obtain k where "(?calls @ ?results) @ take n ?rest = take k ((?calls @ ?results) @ ?rest)"
        using append_take_prefix by blast
      ultimately show ?thesis
        unfolding all using full full2 by auto
    qed
  qed
qed

lemma generateWithTools_forward:
  assumes "fst (getModel (llmService w) (process_env w)) = Inr m"
    and "gt (build_params (llmService w) m h
               (Some \<lparr> go_maxTokens = mt, go_temperature = t,
                       go_tools = Some (createToolSchemas sid w),
                       go_maxSteps = Some (num_or ms 25) \<rparr>)) = Inr result"
  shows "\<exists>g w'. generateWithTools gt h mt t ms sid w = (Inr g, w') \<and>
           g_content g = sdk_text result \<and>
           g_steps g = (case steps result of Some ss \<Rightarrow> ss | None \<Rightarrow> [])"
  using assms
  by (cases "getModel (llmService w) (process_env w)")
     (auto simp: generateWithTools_def generateResponse_def split: prod.splits option.splits)

lemma built_so_far_prefix:
  assumes m: "fst (getModel (llmService w) (process_env w)) = Inr m"
    and res: "gt (task_params clk request options w m) = Inr result"
  shows "\<exists>n. l_messages (built_so_far gt clk request options w)
              = take (Suc n) (expected_messages clk request (task_session clk options) result)"
proof -
  let ?sid = "task_session clk options"
  let ?w1 = "(if map_of (conversationHistory w) ?sid = None
                then w\<lparr> conversationHistory := AList.update ?sid [] (conversationHistory w) \<rparr>
                else w)"
  let ?h1 = "task_history clk request ?sid w"
  let ?w2 = "?w1\<lparr> conversationHistory := AList.update ?sid ?h1 (conversationHistory ?w1) \<rparr>"
  let ?l = "\<lparr> l_messages = [createUserMessage request ?sid], l_toolsUsed = [] \<rparr>"
  let ?steps = "(case steps result of Some ss \<Rightarrow> ss | None \<Rightarrow> [])"
  have same: "llmService ?w2 = llmService w" "process_env ?w2 = process_env w"
       "createToolSchemas ?sid ?w2 = createToolSchemas ?sid w"
    by (simp_all add: createToolSchemas_def)
  from generateWithTools_forward[of ?w2 m gt ?h1 "opt options o_maxTokens" "opt options o_temperature"
         ?sid "Some (num_or (opt options maxSteps) 25)" result] m res
  obtain g w3 where
    g: "generateWithTools gt ?h1 (opt options o_maxTokens) (opt options o_temperature)
          (Some (num_or (opt options maxSteps) 25)) ?sid ?w2 = (Inr g, w3)" and
    c: "g_content g = sdk_text result" and s: "g_steps g = ?steps"
    unfolding same by (auto simp: task_params_def num_or_idem)
  let ?l1 = "(if g_content g \<noteq> [] then
               ?l\<lparr> l_messages := l_messages ?l @
                     [createAssistantMessage (g_content g) ?sid
                        (Some (assistant_now clk - start_now clk))] \<rparr>
             else ?l)"
  let ?w4 = "(if g_content g \<noteq> [] then
                w3\<lparr> conversationHistory :=
                      AList.update ?sid
                        (?h1 @ [\<lparr> role = RAssistant, content = g_content g,
                                   timestamp = Some (assistant_stamp clk) \<rparr>])
                        (conversationHistory w3) \<rparr>
              else w3)"
  let ?head = "createUserMessage request ?sid #
     (if sdk_text result \<noteq> []
      then [createAssistantMessage (sdk_text result) ?sid (Some (assistant_now clk - start_now clk))]
      else [])"
  have head: "l_messages ?l1 = ?head" using c by simp
  obtain oe l2 w5 where ps:
    "(if g_steps g \<noteq> [] then process_steps options ?sid (g_steps g) ?l1 ?w4
      else (None, ?l1, ?w4)) = (oe, l2, w5)"
    by (cases "(if g_steps g \<noteq> [] then process_steps options ?sid (g_steps g) ?l1 ?w4
                else (None, ?l1, ?w4))") auto
  then have ps': "process_steps options ?sid (g_steps g) ?l1 ?w4 = (oe, l2, w5)"
    by (cases "g_steps g") (auto split: if_splits)
  from process_steps_grows[OF ps'] obtain n where
    n: "l_messages l2 = ?head @ take n (concat (map (step_messages ?sid) ?steps))"
    unfolding head s by blast
  have "built_so_far gt clk request options w = l2"
    using g ps by (cases oe)
      (auto simp: built_so_far_def try_block_def Let_def history_after_ensure task_history_def
            split: if_splits prod.splits option.splits)
  moreover have "?head @ take n (concat (map (step_messages ?sid) ?steps))
      = take (length ?head + n) (expected_messages clk request ?sid result)"
    by (simp add: expected_messages_def)
  moreover have "\<exists>k. length ?head + n = Suc k" by simp
  ultimately show ?thesis using n by metis
qed

lemma generateWithTools_throws:
  assumes "fst (getModel (llmService w) (process_env w)) = Inr m"
    and "gt (build_params (llmService w) m h
               (Some \<lparr> go_maxTokens = mt, go_temperature = t,
                       go_tools = Some (createToolSchemas sid w),
                       go_maxSteps = Some (num_or ms 25) \<rparr>)) = Inl err"
  shows "\<exists>e. fst (generateWithTools gt h mt t ms sid w) = Inl e"
  using assms
  by (cases "getModel (llmService w) (process_env w)")
     (auto simp: generateWithTools_def generateResponse_def split: prod.splits sum.splits option.splits)

lemma built_so_far_llm_failure:
  assumes m: "fst (getModel (llmService w) (process_env w)) = Inr m"
    and res: "gt (task_params clk request options w m) = Inl err"
  shows "(\<exists>e. fst (try_block gt clk request options (task_session clk options) w) = Inl e) \<and>
         built_so_far gt clk request options w
           = \<lparr> l_messages = [createUserMessage request (task_session clk options)], l_toolsUsed = [] \<rparr>"
proof -
  let ?sid = "task_session clk options"
  let ?w1 = "(if map_of (conversationHistory w) ?sid = None
                then w\<lparr> conversationHistory := AList.update ?sid [] (conversationHistory w) \<rparr>
                else w)"
  let ?h1 = "task_history clk request ?sid w"
  let ?w2 = "?w1\<lparr> conversationHistory := AList.update ?sid ?h1 (conversationHistory ?w1) \<rparr>"
  have same: "llmService ?w2 = llmService w" "process_env ?w2 = process_env w"
       "createToolSchemas ?sid ?w2 = createToolSchemas ?sid w"
    by (simp_all add: createToolSchemas_def)
  from generateWithTools_throws[of ?w2 m gt ?h1 "opt options o_maxTokens" "opt options o_temperature"
         ?sid "Some (num_or (opt options maxSteps) 25)" err] m res
  obtain e where
    "fst (generateWithTools gt ?h1 (opt options o_maxTokens) (opt options o_temperature)
          (Some (num_or (opt options maxSteps) 25)) ?sid ?w2) = Inl e"
    unfolding same by (auto simp: task_params_def num_or_idem)
  then show ?thesis
    by (cases "generateWithTools gt ?h1 (opt options o_maxTokens) (opt options o_temperature)
          (Some (num_or (opt options maxSteps) 25)) ?sid ?w2")
       (auto simp: built_so_far_def try_block_def Let_def history_after_ensure task_history_def)
qed

subsection \<open>The output channel\<close>

text \<open>No step of a task replaces the channel; a channel that takes every line takes the
  lines of the task.\<close>

lemma appendLine_channel: "appendLine line w = (oe, w') \<Longrightarrow> channel w' = channel w"
  by (auto simp: appendLine_def Let_def)

lemma appendLine_quiet:
  "\<forall>handed. channel w handed = None \<Longrightarrow> fst (appendLine line w) = None"
  by (simp add: appendLine_def Let_def)

lemma generateWithTools_channel:
  "generateWithTools gt h mt t ms sid w = (out, w') \<Longrightarrow> channel w' = channel w"
  by (auto simp: generateWithTools_def appendLine_def Let_def
           split: prod.splits sum.splits option.splits)

lemma process_toolCalls_channel:
  "process_toolCalls options sid cs l w = (oe, l', w') \<Longrightarrow> channel w' = channel w"
proof (induction cs arbitrary: l w)
  case Nil
  then show ?case by simp
next
  case (Cons c cs)
  then show ?case
    by (auto simp: Let_def appendLine_def split: prod.splits option.splits)
qed

lemma process_steps_channel:
  "process_steps options sid ss l w = (oe, l', w') \<Longrightarrow> channel w' = channel w"
proof (induction ss arbitrary: l w)
  case Nil
  then show ?case by simp
next
  case (Cons s ss)
  obtain oc l1 w1 where c:
    "(case st_toolCalls s of Some cs \<Rightarrow> process_toolCalls options sid cs l w | None \<Rightarrow> (None, l, w))
       = (oc, l1, w1)"
    by (cases "(case st_toolCalls s of Some cs \<Rightarrow> process_toolCalls options sid cs l w | None \<Rightarrow> (None, l, w))") auto
  then have w1: "channel w1 = channel w"
    by (cases "st_toolCalls s") (auto dest: process_toolCalls_channel)
  show ?case
  proof (cases oc)
    case (Some err)
    with Cons.prems c w1 show ?thesis by simp
  next
    case None
    obtain orr l2 where r:
      "(case st_toolResults s of Some rs \<Rightarrow> process_toolResults options sid rs l1 | None \<Rightarrow> (None, l1)) = (orr, l2)"
      by (cases "(case st_toolResults s of Some rs \<Rightarrow> process_toolResults options sid rs l1 | None \<Rightarrow> (None, l1))") auto
    show ?thesis
    proof (cases orr)
      case (Some err)
      with Cons.prems c None r w1 show ?thesis by simp
    next
      case None': None
      with Cons.prems c None r have "process_steps options sid ss l2 w1 = (oe, l', w')" by simp
      from Cons.IH[OF this] w1 show ?thesis by simp
    qed
  qed
qed

lemma try_block_channel:
  "try_block gt clk request options sid w = (out, l, w') \<Longrightarrow> channel w' = channel w"
proof -
  assume t: "try_block gt clk request options sid w = (out, l, w')"
  let ?w1 = "(if map_of (conversationHistory w) sid = None
                then w\<lparr> conversationHistory := AList.update sid [] (conversationHistory w) \<rparr>
                else w)"
  let ?h1 = "task_history clk request sid w"
  let ?w2 = "?w1\<lparr> conversationHistory := AList.update sid ?h1 (conversationHistory ?w1) \<rparr>"
  let ?l = "\<lparr> l_messages = [createUserMessage request sid], l_toolsUsed = [] \<rparr>"
  have w2: "channel ?w2 = channel w" by simp
  obtain gout w3 where g:
    "generateWithTools gt ?h1 (opt options o_maxTokens) (opt options o_temperature)
       (Some (num_or (opt options maxSteps) 25)) sid ?w2 = (gout, w3)"
    by (cases "generateWithTools gt ?h1 (opt options o_maxTokens) (opt options o_temperature)
                 (Some (num_or (opt options maxSteps) 25)) sid ?w2") auto
  from generateWithTools_channel[OF g] w2 have w3: "channel w3 = channel w" by simp
  show ?thesis
  proof (cases gout)
    case (Inl err)
    with t g w3 show ?thesis
      by (auto simp: try_block_def Let_def history_after_ensure task_history_def)
  next
    case (Inr resp)
    let ?l1 = "(if g_content resp \<noteq> [] then
                 ?l\<lparr> l_messages := l_messages ?l @
                       [createAssistantMessage (g_content resp) sid
                          (Some (assistant_now clk - start_now clk))] \<rparr>
               else ?l)"
    let ?w4 = "(if g_content resp \<noteq> [] then
                  w3\<lparr> conversationHistory :=
                        AList.update sid
                          (?h1 @ [\<lparr> role = RAssistant, content = g_content resp,
                                     timestamp = Some (assistant_stamp clk) \<rparr>])
                          (conversationHistory w3) \<rparr>
                else w3)"
    have w4: "channel ?w4 = channel w" using w3 by simp
    obtain oe l2 w5 where ps:
      "(if g_steps resp \<noteq> [] then process_steps options sid (g_steps resp) ?l1 ?w4
        else (None, ?l1, ?w4)) = (oe, l2, w5)"
      by (cases "(if g_steps resp \<noteq> [] then process_steps options sid (g_steps resp) ?l1 ?w4
                  else (None, ?l1, ?w4))") auto
    then have "process_steps options sid (g_steps resp) ?l1 ?w4 = (oe, l2, w5)"
      by (cases "g_steps resp") (auto split: if_splits)
    from process_steps_channel[OF this] w4 have w5: "channel w5 = channel w" by simp
    from t g Inr ps w5 show ?thesis
      by (cases oe)
         (auto simp: try_block_def Let_def history_after_ensure task_history_def appendLine_def
               split: if_splits prod.splits option.splits)
  qed
qed



subsection \<open>Failure policy\<close>

text \<open>The \<open>catch\<close> block is not guarded itself: an exception of its string conversion or
  of its line to the output channel leaves the method.\<close>

lemma catch_block_throws:
  assumes "fst (try_block gt clk request options (task_session clk options) w) = Inl err"
  shows "(\<forall>e. error_message_of err = Inl e \<longrightarrow>
            fst (executeTaskWithStreaming gt clk request options w) = Inl e) \<and>
         (\<forall>errorMessage e.
            error_message_of err = Inr errorMessage \<and>
            fst (appendLine (failed_line errorMessage) (world_at_catch gt clk request options w)) = Some e \<longrightarrow>
            fst (executeTaskWithStreaming gt clk request options w) = Inl e)"
  using assms
  by (cases "try_block gt clk request options (task_session clk options) w")
     (auto simp: executeTaskWithStreaming_def catch_block_def world_at_catch_def
           failed_line_def Let_def split: prod.splits)

text \<open>
  Claim C1, as amended. For every request and options, if an exception is thrown inside the
  \<open>try\<close> block of \<open>executeTaskWithStreaming\<close>, and the \<open>catch\<close> block's own steps complete
  (the thrown value converts to text and the output channel takes the failure line), the
  method does not propagate it: it returns a task result with \<open>success = false\<close>, the error
  text populated, a message list equal to the uniform messages built before the exception
  with one uniform error message appended, and the tools accumulated so far (deduplicated)
  as \<open>toolsUsed\<close>.
\<close>

theorem executeTaskWithStreaming_catches:
  assumes "fst (try_block gt clk request options (task_session clk options) w) = Inl err"
    and "error_message_of err = Inr errorMessage"
    and "accepts (world_at_catch gt clk request options w) (failed_line errorMessage)"
  shows "\<exists>r. fst (executeTaskWithStreaming gt clk request options w) = Inr r \<and>
           \<not> success r \<and>
           error r = Some errorMessage \<and>
           messages r = l_messages (built_so_far gt clk request options w) @
                          [createErrorMessage (ErrorString errorMessage) (task_session clk options)] \<and>
           toolsUsed r = spread_Set (l_toolsUsed (built_so_far gt clk request options w))"
  using assms
  by (cases "try_block gt clk request options (task_session clk options) w")
     (auto simp: executeTaskWithStreaming_def catch_block_def built_so_far_def world_at_catch_def
           accepts_def failed_line_def Let_def split: prod.splits)

theorem executeTaskWithStreaming_catches_witness:
  "fst (try_block example_sdk example_clock ''hi'' throwing_options
          (task_session example_clock throwing_options) example_world) = Inl (NonError ''stop'') \<and>
   error_message_of (NonError ''stop'') = Inr ''stop'' \<and>
   (\<exists>r. fst (executeTaskWithStreaming example_sdk example_clock ''hi'' throwing_options example_world) = Inr r \<and>
        \<not> success r \<and> error r = Some ''stop'' \<and>
        messages r =
          [createUserMessage ''hi'' ''s1'',
           createAssistantMessage ''Done'' ''s1'' (Some 500),
           tool_call_message ''s1'' (example_call ''write''),
           tool_call_message ''s1'' (example_call ''write''),
           createToolResultMessage (JsString ''ok'') ''s1'',
           createErrorMessage (ErrorString ''stop'') ''s1''] \<and>
        toolsUsed r = [''write''])"
proof -
  have h: "fst (try_block example_sdk example_clock ''hi'' throwing_options
             (task_session example_clock throwing_options) example_world) = Inl (NonError ''stop'')"
    by (simp add: examples js_defs service_defs agent_defs adapter_defs Let_def)
  have l: "built_so_far example_sdk example_clock ''hi'' throwing_options example_world =
             \<lparr> l_messages =
                 [createUserMessage ''hi'' ''s1'',
                  createAssistantMessage ''Done'' ''s1'' (Some 500),
                  tool_call_message ''s1'' (example_call ''write''),
                  tool_call_message ''s1'' (example_call ''write''),
                  createToolResultMessage (JsString ''ok'') ''s1''],
               l_toolsUsed = [''write'', ''write''] \<rparr>"
    by (simp add: built_so_far_def examples js_defs service_defs agent_defs adapter_defs Let_def)
  have s: "task_session example_clock throwing_options = ''s1''"
    by (simp add: task_session_def throwing_options_def no_options_def js_defs)
  have c: "channel (world_at_catch example_sdk example_clock ''hi'' throwing_options example_world)
             = channel example_world"
    unfolding world_at_catch_def
    by (rule try_block_channel[of example_sdk example_clock "''hi''" throwing_options _ example_world
               "fst (try_block example_sdk example_clock ''hi'' throwing_options
                       (task_session example_clock throwing_options) example_world)"
               "fst (snd (try_block example_sdk example_clock ''hi'' throwing_options
                       (task_session example_clock throwing_options) example_world))"]) simp
  have a: "accepts (world_at_catch example_sdk example_clock ''hi'' throwing_options example_world)
             (failed_line ''stop'')"
  proof -
    have "channel (world_at_catch example_sdk example_clock ''hi'' throwing_options example_world)
            = (\<lambda>handed. None)"
      using c by (simp add: example_world_def)
    then show ?thesis
      by (simp add: accepts_def appendLine_def Let_def)
  qed
  have m: "error_message_of (NonError ''stop'') = Inr ''stop''"
    by simp
  from executeTaskWithStreaming_catches[OF h m a]
  have "\<exists>r. fst (executeTaskWithStreaming example_sdk example_clock ''hi'' throwing_options example_world) = Inr r \<and>
          \<not> success r \<and> error r = Some ''stop'' \<and>
          messages r = l_messages (built_so_far example_sdk example_clock ''hi'' throwing_options example_world) @
                         [createErrorMessage (ErrorString ''stop'') (task_session example_clock throwing_options)] \<and>
          toolsUsed r = spread_Set (l_toolsUsed (built_so_far example_sdk example_clock ''hi'' throwing_options example_world))" .
  then show ?thesis
    using h m by (simp add: l s spread_Set_def)
qed

text \<open>Claim C1 as first stated, for any exception, fails in two ways. With an output
  channel that throws on every line, the line written in the \<open>try\<close> block throws and the
  failure line written in the \<open>catch\<close> block throws again. With a callback that throws a
  value without a string form, the conversion in the \<open>catch\<close> block throws. Either way the
  method ends with an exception instead of a task result.\<close>

theorem executeTaskWithStreaming_propagates:
  "fst (try_block example_sdk example_clock ''hi'' example_options
          (task_session example_clock example_options) closed_channel_world)
     = Inl (new_Error ''channel closed'') \<and>
   fst (executeTaskWithStreaming example_sdk example_clock ''hi'' example_options closed_channel_world)
     = Inl (new_Error ''channel closed'') \<and>
   fst (try_block example_sdk example_clock ''hi'' unprintable_options
          (task_session example_clock unprintable_options) example_world) = Inl Unprintable \<and>
   fst (executeTaskWithStreaming example_sdk example_clock ''hi'' unprintable_options example_world)
     = Inl (type_error ''Cannot convert object to primitive value'')"
  by (simp add: examples js_defs service_defs agent_defs adapter_defs Let_def)

subsection \<open>Order of the returned messages\<close>

text \<open>
  Claim C2. For every successful call of \<open>executeTaskWithStreaming\<close>, the returned message
  list is: first the user message, then the assistant text message (present exactly when
  the content of the LLM response is non-empty), then, for each step in the order the
  provider reported them, that step's tool-call messages followed by that step's
  tool-result messages, each in the order reported within the step.
\<close>

theorem executeTaskWithStreaming_message_order:
  assumes "fst (executeTaskWithStreaming gt clk request options w) = Inr r" and "success r"
  shows "\<exists>m result. fst (getModel (llmService w) (process_env w)) = Inr m \<and>
           gt (task_params clk request options w m) = Inr result \<and>
           messages r = expected_messages clk request (task_session clk options) result"
proof -
  obtain out l w' where t:
    "try_block gt clk request options (task_session clk options) w = (out, l, w')"
    by (cases "try_block gt clk request options (task_session clk options) w") auto
  from assms t have "out = Inr r"
    by (cases out)
       (auto simp: executeTaskWithStreaming_def catch_block_def Let_def
             split: sum.splits prod.splits option.splits)
  with t have "try_block gt clk request options (task_session clk options) w = (Inr r, l, w')"
    by simp
  from try_block_success[OF this] show ?thesis
    by (auto simp: task_params_def)
qed

theorem executeTaskWithStreaming_message_order_witness:
  "success (projr (fst (executeTaskWithStreaming example_sdk example_clock ''hi'' example_options example_world))) \<and>
   messages (projr (fst (executeTaskWithStreaming example_sdk example_clock ''hi'' example_options example_world)))
     = [createUserMessage ''hi'' ''s1'',
        createAssistantMessage ''Done'' ''s1'' (Some 500),
        tool_call_message ''s1'' (example_call ''write''),
        tool_call_message ''s1'' (example_call ''write''),
        createToolResultMessage (JsString ''ok'') ''s1'',
        createToolResultMessage (JsString ''ok'') ''s1'',
        tool_call_message ''s1'' (example_call ''read'')]"
proof -
  let ?run = "fst (executeTaskWithStreaming example_sdk example_clock ''hi'' example_options example_world)"
  have ok: "success (projr ?run)"
    by (simp add: examples js_defs service_defs agent_defs adapter_defs Let_def)
  have ret: "?run = Inr (projr ?run)"
    by (simp add: examples js_defs service_defs agent_defs adapter_defs Let_def)
  from executeTaskWithStreaming_message_order[OF ret ok]
  obtain m result where
    res: "example_sdk (task_params example_clock ''hi'' example_options example_world m) = Inr result" and
    msgs: "messages (projr ?run)
             = expected_messages example_clock ''hi'' (task_session example_clock example_options) result"
    by blast
  from res have result: "result = example_result"
    by (simp add: example_sdk_def)
  have "expected_messages example_clock ''hi'' (task_session example_clock example_options) example_result
     = [createUserMessage ''hi'' ''s1'',
        createAssistantMessage ''Done'' ''s1'' (Some 500),
        tool_call_message ''s1'' (example_call ''write''),
        tool_call_message ''s1'' (example_call ''write''),
        createToolResultMessage (JsString ''ok'') ''s1'',
        createToolResultMessage (JsString ''ok'') ''s1'',
        tool_call_message ''s1'' (example_call ''read'')]"
    by (simp add: expected_messages_def step_messages_def step_calls_def step_results_def
          task_session_def example_options_def no_options_def example_result_def example_clock_def js_defs)
  with msgs result ok show ?thesis by simp
qed

subsection \<open>The entry point\<close>








section \<open>Properties of the Claude Code wrapper\<close>

lemma Wrapper_never_reports_failure:
  "Wrapper_executeTaskWithStreaming service request options = Inr r \<Longrightarrow> success r"
  by (auto simp: Wrapper_executeTaskWithStreaming_def split: sum.splits)



end
